theory Spec2Isabelle
  imports Complex_Main
begin

section \<open>TrafficWork: webhook reconciliation and conversion postbacks\<close>

text \<open>
  A shallow embedding of \<^verbatim>\<open>KeitaroService\<close> (keitaro.service.ts) and of
  \<^verbatim>\<open>StripeService.handleWebhook\<close> with its handlers (stripe.service.ts).

  Conventions of the embedding:
  \<^item> the database is a record of tables, each table the list of its rows; every source
    function takes the world and returns the world it leaves behind;
  \<^item> a JavaScript exception is the outcome \<open>Thrown msg\<close>, carried next to the
    world at the moment of the throw, so writes made before it stay visible;
  \<^item> the tracker (reached with axios), the Stripe API and Stripe's signature check are
    parameters of the functions that call them; outbound requests are appended to a
    trace kept in the world;
  \<^item> \<^verbatim>\<open>Date.now()\<close> and \<^verbatim>\<open>new Date()\<close> read one clock value \<open>now\<close>
    (milliseconds) per call of a service method;
  \<^item> JavaScript numbers are finite and exact (rationals); \<^verbatim>\<open>amount.toString()\<close>
    is kept as the number itself; an \<^verbatim>\<open>Int\<close> column holds 32-bit signed integers;
  \<^item> calls of the logger write to log files only and are left out.
\<close>

subsection \<open>JavaScript values\<close>

type_synonym date = int

datatype 'a outcome = Returned 'a | Thrown string

text \<open>\<^verbatim>\<open>!s\<close> on a \<^verbatim>\<open>string | null | undefined\<close>: absent and empty are falsy.\<close>

definition truthy_str :: "string option \<Rightarrow> bool" where
  "truthy_str s = (case s of None \<Rightarrow> False | Some v \<Rightarrow> v \<noteq> [])"

text \<open>\<^verbatim>\<open>n\<close> used as a condition, for a \<^verbatim>\<open>number | null\<close>: absent and zero are falsy.\<close>

definition truthy_num :: "int option \<Rightarrow> bool" where
  "truthy_num n = (case n of None \<Rightarrow> False | Some v \<Rightarrow> v \<noteq> 0)"

text \<open>\<^verbatim>\<open>s || d\<close> with a string default.\<close>

definition or_default :: "string option \<Rightarrow> string \<Rightarrow> string" where
  "or_default s d = (case s of None \<Rightarrow> d | Some v \<Rightarrow> if v = [] then d else v)"

text \<open>\<^verbatim>\<open>s || null\<close> and \<^verbatim>\<open>s || undefined\<close>.\<close>

definition or_absent :: "string option \<Rightarrow> string option" where
  "or_absent s = (if truthy_str s then s else None)"

text \<open>\<^verbatim>\<open>Math.round\<close>: to the nearest integer, halves upwards.\<close>

definition Math_round :: "rat \<Rightarrow> int" where
  "Math_round x = \<lfloor>x + 1 / 2\<rfloor>"

subsection \<open>Configuration\<close>

record config =
  trackerUrl :: string
  postbackKey :: string
  status_registration :: string
  status_purchase :: string
  webhookSecret :: string
  price_annual :: string

subsection \<open>Tables\<close>

text \<open>
  The rows follow the Prisma schema. Columns that no modelled function reads or writes
  (email, password, name, the Json metadata of a tracking event, the generated id of a
  webhook event) are left out.
\<close>

record user =
  user_id :: string
  stripeCustomerId :: "string option"
  subscriptionId :: "string option"
  subscriptionStatus :: "string option"
  subscriptionPlan :: "string option"
  subscriptionEndDate :: "date option"
  keitaroSubId :: "string option"
  updatedAt :: date

record payment =
  pay_userId :: string
  stripePaymentId :: string
  pay_amount :: int
  pay_currency :: string
  pay_status :: string
  paymentMethod :: "string option"
  pay_keitaroSubId :: "string option"
  pay_createdAt :: date

record tracking_event =
  te_id :: nat
  te_userId :: "string option"
  te_eventType :: string
  subId :: "string option"
  te_status :: "string option"
  te_amount :: "int option"
  te_currency :: "string option"
  sentToTracker :: bool
  sentAt :: "date option"
  te_createdAt :: date

subsection \<open>The tracker\<close>

text \<open>
  A query parameter is a string, or a number that \<^verbatim>\<open>toString()\<close> renders.
  A request is the base URL and the ordered parameters of \<^verbatim>\<open>URLSearchParams\<close>.
\<close>

datatype qvalue = QStr string | QNum rat

record request =
  req_base :: string
  req_params :: "(string \<times> qvalue) list"

text \<open>
  What comes back from the network for one request: a response with its status and its
  \<^verbatim>\<open>Location\<close> header (an absolute URL, when present), or nothing.
\<close>

datatype http_result = Response int "string option" | NetworkFailure

text \<open>The network answers a request given the requests that went out before it.\<close>

type_synonym tracker = "request list \<Rightarrow> request \<Rightarrow> http_result"

subsection \<open>Stripe objects and events\<close>

text \<open>
  The \<^verbatim>\<open>as Stripe.Checkout.Session\<close>, \<^verbatim>\<open>as Stripe.Subscription\<close> and
  \<^verbatim>\<open>as Stripe.Invoice\<close> casts of the dispatcher do nothing when the program runs, so
  \<^verbatim>\<open>event.data.object\<close> is one record of the properties the handlers read; a property
  that the object lacks (or holds as null) is \<open>None\<close>. The properties \<^verbatim>\<open>id\<close>,
  \<^verbatim>\<open>status\<close>, \<^verbatim>\<open>current_period_end\<close> and \<^verbatim>\<open>amount_paid\<close> are read
  without a guard and are always present. \<open>so_price\<close> is
  \<^verbatim>\<open>items.data[0]?.price.id\<close>.
\<close>

record stripe_object =
  so_id :: string
  so_status :: string
  so_userId :: "string option"
  so_keitaroSubId :: "string option"
  so_subscription :: "string option"
  so_payment_intent :: "string option"
  so_amount_total :: "int option"
  so_amount_paid :: int
  so_currency :: "string option"
  so_price :: "string option"
  so_current_period_end :: int

record stripe_event =
  ev_id :: string
  ev_type :: string
  ev_object :: stripe_object

record webhook_event =
  we_source :: string
  eventId :: string
  eventType :: string
  we_payload :: stripe_event
  processed :: bool
  processedAt :: "date option"
  we_error :: "string option"
  we_createdAt :: date

text \<open>\<^verbatim>\<open>stripe.webhooks.constructEvent(payload, signature, secret)\<close>: the event, or
  \<open>None\<close> when the SDK throws.\<close>

type_synonym construct_event = "string \<Rightarrow> string \<Rightarrow> string \<Rightarrow> stripe_event option"

text \<open>\<^verbatim>\<open>stripe.subscriptions.retrieve(id)\<close>: the subscription, or the message of the
  error the SDK throws.\<close>

type_synonym retrieve = "string option \<Rightarrow> string + stripe_object"

subsection \<open>The world\<close>

record world =
  users :: "user list"
  payments :: "payment list"
  webhookEvents :: "webhook_event list"
  trackingEvents :: "tracking_event list"
  postbacks :: "request list"
  retrievals :: "string option list"

subsection \<open>Prisma queries\<close>

text \<open>
  \<^verbatim>\<open>findUnique\<close> gives the row or null; \<^verbatim>\<open>update\<close> throws when no row has
  the key; \<^verbatim>\<open>create\<close> throws when a unique column or a foreign key is violated.
  An update of a user also stamps \<^verbatim>\<open>updatedAt\<close>. A call of \<^verbatim>\<open>create\<close> in the
  model lists every column of the new row: those the source passes, and for those it
  leaves out the default of the schema (\<^verbatim>\<open>processed\<close> and \<^verbatim>\<open>sentToTracker\<close>
  false, \<^verbatim>\<open>processedAt\<close>, \<^verbatim>\<open>error\<close> and \<^verbatim>\<open>sentAt\<close> null,
  \<^verbatim>\<open>createdAt\<close> the current time). The key of a tracking event is generated.
\<close>

definition P2025 :: string where
  "P2025 = ''Record to update not found.''"

definition P2002 :: string where
  "P2002 = ''Unique constraint failed''"

definition P2003 :: string where
  "P2003 = ''Foreign key constraint failed''"

text \<open>
  An \<^verbatim>\<open>Int\<close> column of the schema is a PostgreSQL \<^verbatim>\<open>int4\<close>: a write of a value
  outside the 32-bit signed range is refused before any row is stored.
\<close>

definition int4 :: "int \<Rightarrow> bool" where
  "int4 n = (- 2147483648 \<le> n \<and> n \<le> 2147483647)"

definition int4_error :: string where
  "int4_error = ''Unable to fit integer value into an INT4 (32-bit signed integer).''"

definition user_findUnique :: "string \<Rightarrow> world \<Rightarrow> user option" where
  "user_findUnique uid w = find (\<lambda>u. user_id u = uid) (users w)"

definition user_update :: "date \<Rightarrow> string \<Rightarrow> (user \<Rightarrow> user) \<Rightarrow> world \<Rightarrow> unit outcome \<times> world" where
  "user_update now uid f w =
     (if \<exists>u \<in> set (users w). user_id u = uid
      then (Returned (),
            w\<lparr>users := map (\<lambda>u. if user_id u = uid then (f u)\<lparr>updatedAt := now\<rparr> else u) (users w)\<rparr>)
      else (Thrown P2025, w))"

definition payment_create :: "payment \<Rightarrow> world \<Rightarrow> unit outcome \<times> world" where
  "payment_create p w =
     (if \<not> int4 (pay_amount p) then (Thrown int4_error, w)
      else if \<exists>q \<in> set (payments w). stripePaymentId q = stripePaymentId p then (Thrown P2002, w)
      else if \<not> (\<exists>u \<in> set (users w). user_id u = pay_userId p) then (Thrown P2003, w)
      else (Returned (), w\<lparr>payments := payments w @ [p]\<rparr>))"

definition webhookEvent_findUnique :: "string \<Rightarrow> world \<Rightarrow> webhook_event option" where
  "webhookEvent_findUnique eid w = find (\<lambda>e. eventId e = eid) (webhookEvents w)"

definition webhookEvent_create :: "webhook_event \<Rightarrow> world \<Rightarrow> unit outcome \<times> world" where
  "webhookEvent_create e w =
     (if \<exists>x \<in> set (webhookEvents w). eventId x = eventId e then (Thrown P2002, w)
      else (Returned (), w\<lparr>webhookEvents := webhookEvents w @ [e]\<rparr>))"

definition webhookEvent_update ::
  "string \<Rightarrow> (webhook_event \<Rightarrow> webhook_event) \<Rightarrow> world \<Rightarrow> unit outcome \<times> world" where
  "webhookEvent_update eid f w =
     (if \<exists>x \<in> set (webhookEvents w). eventId x = eid
      then (Returned (),
            w\<lparr>webhookEvents := map (\<lambda>x. if eventId x = eid then f x else x) (webhookEvents w)\<rparr>)
      else (Thrown P2025, w))"

text \<open>The generated primary key of a new tracking event: a key no row has yet.\<close>

definition fresh_id :: "tracking_event list \<Rightarrow> nat" where
  "fresh_id rows = Suc (foldr max (map te_id rows) 0)"

definition trackingEvent_create ::
  "tracking_event \<Rightarrow> world \<Rightarrow> tracking_event outcome \<times> world" where
  "trackingEvent_create data w =
     (if (case te_amount data of None \<Rightarrow> False | Some a \<Rightarrow> \<not> int4 a) then (Thrown int4_error, w)
      else
        let row = data\<lparr>te_id := fresh_id (trackingEvents w)\<rparr>
        in (Returned row, w\<lparr>trackingEvents := trackingEvents w @ [row]\<rparr>))"

definition trackingEvent_update ::
  "nat \<Rightarrow> (tracking_event \<Rightarrow> tracking_event) \<Rightarrow> world \<Rightarrow> unit outcome \<times> world" where
  "trackingEvent_update i f w =
     (if \<exists>x \<in> set (trackingEvents w). te_id x = i
      then (Returned (),
            w\<lparr>trackingEvents := map (\<lambda>x. if te_id x = i then f x else x) (trackingEvents w)\<rparr>)
      else (Thrown P2025, w))"

subsection \<open>KeitaroService\<close>

text \<open>
  \<^verbatim>\<open>axios.get(url, {timeout: 5000, validateStatus: (status) => status < 500})\<close>.
  The call sets no \<^verbatim>\<open>maxRedirects\<close>, so the HTTP client follows redirects: a
  response with a status from 300 to 399 and a non-empty \<^verbatim>\<open>Location\<close> is answered
  by a new GET of that location, up to the client's default of 21 redirects; one more is
  an error. The status of the last response is the one the promise sees: it resolves when
  \<^verbatim>\<open>validateStatus\<close> accepts that status and rejects otherwise, as it does when
  nothing comes back in time. The trace \<open>postbacks\<close> records the URL of the call, not
  the hops the client makes on its own.
\<close>

definition maxRedirects :: nat where
  "maxRedirects = 21"

definition is_redirect :: "int \<Rightarrow> string option \<Rightarrow> bool" where
  "is_redirect status location = (truthy_str location \<and> 300 \<le> status \<and> status < 400)"

fun follow_redirects :: "tracker \<Rightarrow> nat \<Rightarrow> request list \<Rightarrow> request \<Rightarrow> int outcome" where
  "follow_redirects trk 0 history req =
     (case trk history req of
        NetworkFailure \<Rightarrow> Thrown ''Network Error''
      | Response status location \<Rightarrow>
          if is_redirect status location then Thrown ''Maximum number of redirects exceeded''
          else Returned status)"
| "follow_redirects trk (Suc n) history req =
     (case trk history req of
        NetworkFailure \<Rightarrow> Thrown ''Network Error''
      | Response status location \<Rightarrow>
          if is_redirect status location
          then follow_redirects trk n (history @ [req])
                 \<lparr>req_base = the location, req_params = []\<rparr>
          else Returned status)"

definition validateStatus :: "int \<Rightarrow> bool" where
  "validateStatus status = (status < 500)"

definition axios_get :: "tracker \<Rightarrow> request \<Rightarrow> world \<Rightarrow> int outcome \<times> world" where
  "axios_get trk req w =
     (let w' = w\<lparr>postbacks := postbacks w @ [req]\<rparr>
      in case follow_redirects trk maxRedirects (postbacks w) req of
           Returned status \<Rightarrow>
             if validateStatus status then (Returned status, w')
             else (Thrown ''Request failed with status code'', w')
         | Thrown error \<Rightarrow> (Thrown error, w'))"

definition postback_url ::
  "config \<Rightarrow> string \<Rightarrow> string \<Rightarrow> rat option \<Rightarrow> string option \<Rightarrow> request" where
  "postback_url cfg clickId status amount currency =
     \<lparr>req_base = trackerUrl cfg @ ''/postback'',
      req_params =
        [(''subid'', QStr clickId), (''status'', QStr status), (''key'', QStr (postbackKey cfg))]
        @ (case amount of None \<Rightarrow> [] | Some a \<Rightarrow> [(''payout'', QNum a)])
        @ (if truthy_str currency then [(''currency'', QStr (the currency))] else [])\<rparr>"

definition sendPostback ::
  "config \<Rightarrow> tracker \<Rightarrow> string \<Rightarrow> string \<Rightarrow> rat option \<Rightarrow> string option \<Rightarrow> world
     \<Rightarrow> bool \<times> world" where
  "sendPostback cfg trk clickId status amount currency w =
     (case axios_get trk (postback_url cfg clickId status amount currency) w of
        (Returned response_status, w') \<Rightarrow>
          if response_status = 200 then (True, w') else (False, w')
      | (Thrown error, w') \<Rightarrow> (False, w'))"

text \<open>The fallback both tracking methods start with.\<close>

definition resolve_clickId :: "string \<Rightarrow> string option \<Rightarrow> world \<Rightarrow> string option" where
  "resolve_clickId userId clickId w =
     (if \<not> truthy_str clickId
      then (case user_findUnique userId w of
              None \<Rightarrow> None
            | Some u \<Rightarrow> or_absent (keitaroSubId u))
      else clickId)"

definition mark_sent :: "date \<Rightarrow> bool \<Rightarrow> tracking_event \<Rightarrow> tracking_event" where
  "mark_sent now success row =
     row\<lparr>sentToTracker := success, sentAt := (if success then Some now else None)\<rparr>"

definition trackRegistration ::
  "config \<Rightarrow> tracker \<Rightarrow> date \<Rightarrow> string \<Rightarrow> string option \<Rightarrow> world \<Rightarrow> unit outcome \<times> world" where
  "trackRegistration cfg trk now userId clickId0 w =
     (let clickId = resolve_clickId userId clickId0 w
      in if \<not> truthy_str clickId then (Returned (), w)
         else
           case trackingEvent_create
                  \<lparr>te_id = 0, te_userId = Some userId, te_eventType = ''registration'',
                   subId = clickId, te_status = Some (status_registration cfg),
                   te_amount = None, te_currency = None,
                   sentToTracker = False, sentAt = None, te_createdAt = now\<rparr> w of
             (Thrown error, w1) \<Rightarrow> (Thrown error, w1)
           | (Returned trackingEvent, w1) \<Rightarrow>
               let (success, w2) =
                     sendPostback cfg trk (the clickId) (status_registration cfg) None None w1
               in trackingEvent_update (te_id trackingEvent) (mark_sent now success) w2)"

definition trackPurchase ::
  "config \<Rightarrow> tracker \<Rightarrow> date \<Rightarrow> string \<Rightarrow> rat \<Rightarrow> string option \<Rightarrow> string option \<Rightarrow> world
     \<Rightarrow> unit outcome \<times> world" where
  "trackPurchase cfg trk now userId amount currency0 clickId0 w =
     (let currency = (case currency0 of None \<Rightarrow> ''USD'' | Some c \<Rightarrow> c);
          clickId = resolve_clickId userId clickId0 w
      in if \<not> truthy_str clickId then (Returned (), w)
         else
           case trackingEvent_create
                  \<lparr>te_id = 0, te_userId = Some userId, te_eventType = ''purchase'',
                   subId = clickId, te_status = Some (status_purchase cfg),
                   te_amount = Some (Math_round amount), te_currency = Some currency,
                   sentToTracker = False, sentAt = None, te_createdAt = now\<rparr> w of
             (Thrown error, w1) \<Rightarrow> (Thrown error, w1)
           | (Returned trackingEvent, w1) \<Rightarrow>
               let amountInDollars = amount / 100;
                   (success, w2) =
                     sendPostback cfg trk (the clickId) (status_purchase cfg)
                       (Some amountInDollars) (Some currency) w1
               in trackingEvent_update (te_id trackingEvent) (mark_sent now success) w2)"

text \<open>The \<^verbatim>\<open>where\<close> clause and the \<^verbatim>\<open>take\<close> of the sweeper's query.\<close>

definition retry_window :: int where
  "retry_window = 24 * 60 * 60 * 1000"

definition is_failed :: "date \<Rightarrow> tracking_event \<Rightarrow> bool" where
  "is_failed now e = (sentToTracker e = False \<and> te_createdAt e \<ge> now - retry_window)"

definition failedEvents :: "date \<Rightarrow> world \<Rightarrow> tracking_event list" where
  "failedEvents now w = take 100 (filter (is_failed now) (trackingEvents w))"

text \<open>The body of the \<^verbatim>\<open>for\<close> loop, for one row of the query's result.\<close>

definition retry_event ::
  "config \<Rightarrow> tracker \<Rightarrow> date \<Rightarrow> tracking_event \<Rightarrow> world \<Rightarrow> unit outcome \<times> world" where
  "retry_event cfg trk now event w =
     (if \<not> truthy_str (subId event) then (Returned (), w)
      else
        let (success, w1) =
              (if te_eventType event = ''registration''
               then sendPostback cfg trk (the (subId event))
                      (or_default (te_status event) (status_registration cfg)) None None w
               else if te_eventType event = ''purchase'' \<and> truthy_num (te_amount event)
               then sendPostback cfg trk (the (subId event))
                      (or_default (te_status event) (status_purchase cfg))
                      (Some (of_int (the (te_amount event)) / 100))
                      (Some (or_default (te_currency event) ''USD'')) w
               else (False, w))
        in if success
           then trackingEvent_update (te_id event)
                  (\<lambda>row. row\<lparr>sentToTracker := True, sentAt := Some now\<rparr>) w1
           else (Returned (), w1))"

fun retry_loop ::
  "config \<Rightarrow> tracker \<Rightarrow> date \<Rightarrow> tracking_event list \<Rightarrow> world \<Rightarrow> unit outcome \<times> world" where
  "retry_loop cfg trk now [] w = (Returned (), w)"
| "retry_loop cfg trk now (event # rest) w =
     (case retry_event cfg trk now event w of
        (Returned u, w') \<Rightarrow> retry_loop cfg trk now rest w'
      | (Thrown error, w') \<Rightarrow> (Thrown error, w'))"

definition retryFailedPostbacks ::
  "config \<Rightarrow> tracker \<Rightarrow> date \<Rightarrow> world \<Rightarrow> unit outcome \<times> world" where
  "retryFailedPostbacks cfg trk now w = retry_loop cfg trk now (failedEvents now w) w"

subsection \<open>StripeService\<close>

definition subscriptions_retrieve ::
  "retrieve \<Rightarrow> string option \<Rightarrow> world \<Rightarrow> stripe_object outcome \<times> world" where
  "subscriptions_retrieve api sid w =
     (let w' = w\<lparr>retrievals := retrievals w @ [sid]\<rparr>
      in case api sid of Inl msg \<Rightarrow> (Thrown msg, w') | Inr subscription \<Rightarrow> (Returned subscription, w'))"

definition updateUserSubscription ::
  "config \<Rightarrow> date \<Rightarrow> string \<Rightarrow> stripe_object \<Rightarrow> world \<Rightarrow> unit outcome \<times> world" where
  "updateUserSubscription cfg now userId subscription w =
     (let plan = (if so_price subscription = Some (price_annual cfg) then ''annual'' else ''monthly'');
          endDate = so_current_period_end subscription * 1000
      in user_update now userId
           (\<lambda>u. u\<lparr>subscriptionId := Some (so_id subscription),
                  subscriptionStatus := Some (so_status subscription),
                  subscriptionPlan := Some plan,
                  subscriptionEndDate := Some endDate\<rparr>) w)"

definition handleCheckoutSessionCompleted ::
  "config \<Rightarrow> retrieve \<Rightarrow> date \<Rightarrow> stripe_object \<Rightarrow> world \<Rightarrow> unit outcome \<times> world" where
  "handleCheckoutSessionCompleted cfg api now session w =
     (if \<not> truthy_str (so_userId session) then (Returned (), w)
      else
        case subscriptions_retrieve api (so_subscription session) w of
          (Thrown error, w1) \<Rightarrow> (Thrown error, w1)
        | (Returned subscription, w1) \<Rightarrow>
            (case updateUserSubscription cfg now (the (so_userId session)) subscription w1 of
               (Thrown error, w2) \<Rightarrow> (Thrown error, w2)
             | (Returned u, w2) \<Rightarrow>
                 if truthy_str (so_payment_intent session)
                 then payment_create
                        \<lparr>pay_userId = the (so_userId session),
                         stripePaymentId = the (so_payment_intent session),
                         pay_amount = (case so_amount_total session of None \<Rightarrow> 0 | Some a \<Rightarrow> a),
                         pay_currency = or_default (so_currency session) ''usd'',
                         pay_status = ''succeeded'',
                         paymentMethod = Some ''card'',
                         pay_keitaroSubId = or_absent (so_keitaroSubId session),
                         pay_createdAt = now\<rparr> w2
                 else (Returned (), w2)))"

definition handleSubscriptionUpdate ::
  "config \<Rightarrow> date \<Rightarrow> stripe_object \<Rightarrow> world \<Rightarrow> unit outcome \<times> world" where
  "handleSubscriptionUpdate cfg now subscription w =
     (if \<not> truthy_str (so_userId subscription) then (Returned (), w)
      else updateUserSubscription cfg now (the (so_userId subscription)) subscription w)"

definition handleSubscriptionDeleted ::
  "date \<Rightarrow> stripe_object \<Rightarrow> world \<Rightarrow> unit outcome \<times> world" where
  "handleSubscriptionDeleted now subscription w =
     (if \<not> truthy_str (so_userId subscription) then (Returned (), w)
      else user_update now (the (so_userId subscription))
             (\<lambda>u. u\<lparr>subscriptionStatus := Some ''canceled'',
                    subscriptionEndDate := Some (so_current_period_end subscription * 1000)\<rparr>) w)"

text \<open>An invoice without \<^verbatim>\<open>currency\<close> leaves the column to its default.\<close>

definition handleInvoicePaymentSucceeded ::
  "retrieve \<Rightarrow> date \<Rightarrow> stripe_object \<Rightarrow> world \<Rightarrow> unit outcome \<times> world" where
  "handleInvoicePaymentSucceeded api now invoice w =
     (if \<not> truthy_str (so_subscription invoice) \<or> \<not> truthy_str (so_payment_intent invoice)
      then (Returned (), w)
      else
        case subscriptions_retrieve api (so_subscription invoice) w of
          (Thrown error, w1) \<Rightarrow> (Thrown error, w1)
        | (Returned subscription, w1) \<Rightarrow>
            if \<not> truthy_str (so_userId subscription) then (Returned (), w1)
            else payment_create
                   \<lparr>pay_userId = the (so_userId subscription),
                    stripePaymentId = the (so_payment_intent invoice),
                    pay_amount = so_amount_paid invoice,
                    pay_currency = (case so_currency invoice of None \<Rightarrow> ''USD'' | Some c \<Rightarrow> c),
                    pay_status = ''succeeded'',
                    paymentMethod = Some ''card'',
                    pay_keitaroSubId = or_absent (so_keitaroSubId subscription),
                    pay_createdAt = now\<rparr> w1)"

definition handleInvoicePaymentFailed ::
  "retrieve \<Rightarrow> date \<Rightarrow> stripe_object \<Rightarrow> world \<Rightarrow> unit outcome \<times> world" where
  "handleInvoicePaymentFailed api now invoice w =
     (if \<not> truthy_str (so_subscription invoice) then (Returned (), w)
      else
        case subscriptions_retrieve api (so_subscription invoice) w of
          (Thrown error, w1) \<Rightarrow> (Thrown error, w1)
        | (Returned subscription, w1) \<Rightarrow>
            if \<not> truthy_str (so_userId subscription) then (Returned (), w1)
            else user_update now (the (so_userId subscription))
                   (\<lambda>u. u\<lparr>subscriptionStatus := Some ''past_due''\<rparr>) w1)"

text \<open>The \<^verbatim>\<open>switch (event.type)\<close> of \<^verbatim>\<open>handleWebhook\<close>.\<close>

definition dispatch ::
  "config \<Rightarrow> retrieve \<Rightarrow> date \<Rightarrow> stripe_event \<Rightarrow> world \<Rightarrow> unit outcome \<times> world" where
  "dispatch cfg api now event w =
     (if ev_type event = ''checkout.session.completed''
      then handleCheckoutSessionCompleted cfg api now (ev_object event) w
      else if ev_type event = ''customer.subscription.created''
            \<or> ev_type event = ''customer.subscription.updated''
      then handleSubscriptionUpdate cfg now (ev_object event) w
      else if ev_type event = ''customer.subscription.deleted''
      then handleSubscriptionDeleted now (ev_object event) w
      else if ev_type event = ''invoice.payment_succeeded''
      then handleInvoicePaymentSucceeded api now (ev_object event) w
      else if ev_type event = ''invoice.payment_failed''
      then handleInvoicePaymentFailed api now (ev_object event) w
      else (Returned (), w))"

text \<open>The \<^verbatim>\<open>try\<close> block: the switch, then the update that marks the event processed.\<close>

definition process_event ::
  "config \<Rightarrow> retrieve \<Rightarrow> date \<Rightarrow> stripe_event \<Rightarrow> world \<Rightarrow> unit outcome \<times> world" where
  "process_event cfg api now event w =
     (case dispatch cfg api now event w of
        (Thrown error, w1) \<Rightarrow> (Thrown error, w1)
      | (Returned u, w1) \<Rightarrow>
          webhookEvent_update (ev_id event)
            (\<lambda>row. row\<lparr>processed := True, processedAt := Some now\<rparr>) w1)"

definition handleWebhook ::
  "config \<Rightarrow> construct_event \<Rightarrow> retrieve \<Rightarrow> date \<Rightarrow> string \<Rightarrow> string \<Rightarrow> world
     \<Rightarrow> unit outcome \<times> world" where
  "handleWebhook cfg constructEvent api now signature payload w =
     (case constructEvent payload signature (webhookSecret cfg) of
        None \<Rightarrow> (Thrown ''Invalid webhook signature'', w)
      | Some event \<Rightarrow>
          (case webhookEvent_findUnique (ev_id event) w of
             Some existingEvent \<Rightarrow> (Returned (), w)
           | None \<Rightarrow>
               (case webhookEvent_create
                       \<lparr>we_source = ''stripe'', eventId = ev_id event, eventType = ev_type event,
                        we_payload = event, processed = False, processedAt = None,
                        we_error = None, we_createdAt = now\<rparr> w of
                  (Thrown error, w1) \<Rightarrow> (Thrown error, w1)
                | (Returned u, w1) \<Rightarrow>
                    (case process_event cfg api now event w1 of
                       (Returned u', w2) \<Rightarrow> (Returned (), w2)
                     | (Thrown error, w2) \<Rightarrow>
                         (case webhookEvent_update (ev_id event)
                                 (\<lambda>row. row\<lparr>processed := True, processedAt := Some now,
                                             we_error := Some error\<rparr>) w2 of
                            (Thrown error', w3) \<Rightarrow> (Thrown error', w3)
                          | (Returned u', w3) \<Rightarrow> (Thrown error, w3))))))"

subsection \<open>Derived notions\<close>

text \<open>
  Names for what the functions above compute on the way, used to state the theorems:
  whether the exchange started by a request ends with status 200,
  the row a tracking method creates and the request it sends, the condition under which
  the sweeper's loop body calls \<^verbatim>\<open>sendPostback\<close> and the request it then sends,
  and the row \<^verbatim>\<open>handleWebhook\<close> stores.
\<close>

definition postback_delivered :: "tracker \<Rightarrow> request list \<Rightarrow> request \<Rightarrow> bool" where
  "postback_delivered trk history req =
     (follow_redirects trk maxRedirects history req = Returned 200)"

definition retry_sends :: "tracking_event \<Rightarrow> bool" where
  "retry_sends e =
     (truthy_str (subId e) \<and>
      (te_eventType e = ''registration'' \<or> (te_eventType e = ''purchase'' \<and> truthy_num (te_amount e))))"

definition retry_request :: "config \<Rightarrow> tracking_event \<Rightarrow> request" where
  "retry_request cfg e =
     (if te_eventType e = ''registration''
      then postback_url cfg (the (subId e))
             (or_default (te_status e) (status_registration cfg)) None None
      else postback_url cfg (the (subId e))
             (or_default (te_status e) (status_purchase cfg))
             (Some (of_int (the (te_amount e)) / 100))
             (Some (or_default (te_currency e) ''USD'')))"

definition set_sent :: "date \<Rightarrow> tracking_event \<Rightarrow> tracking_event" where
  "set_sent now row = row\<lparr>sentToTracker := True, sentAt := Some now\<rparr>"

definition purchase_row :: "config \<Rightarrow> date \<Rightarrow> string \<Rightarrow> rat \<Rightarrow> string option \<Rightarrow> string option \<Rightarrow> world \<Rightarrow> tracking_event" where
  "purchase_row cfg now userId amount currencyArg clickId w =
     \<lparr>te_id = fresh_id (trackingEvents w), te_userId = Some userId, te_eventType = ''purchase'',
      subId = clickId, te_status = Some (status_purchase cfg),
      te_amount = Some (Math_round amount),
      te_currency = Some (case currencyArg of None \<Rightarrow> ''USD'' | Some c \<Rightarrow> c),
      sentToTracker = False, sentAt = None, te_createdAt = now\<rparr>"

definition purchase_request :: "config \<Rightarrow> rat \<Rightarrow> string option \<Rightarrow> string option \<Rightarrow> request" where
  "purchase_request cfg amount currencyArg clickId =
     postback_url cfg (the clickId) (status_purchase cfg) (Some (amount / 100))
       (Some (case currencyArg of None \<Rightarrow> ''USD'' | Some c \<Rightarrow> c))"

definition registration_row :: "config \<Rightarrow> date \<Rightarrow> string \<Rightarrow> string option \<Rightarrow> world \<Rightarrow> tracking_event" where
  "registration_row cfg now userId clickId w =
     \<lparr>te_id = fresh_id (trackingEvents w), te_userId = Some userId, te_eventType = ''registration'',
      subId = clickId, te_status = Some (status_registration cfg),
      te_amount = None, te_currency = None,
      sentToTracker = False, sentAt = None, te_createdAt = now\<rparr>"

definition registration_request :: "config \<Rightarrow> string option \<Rightarrow> request" where
  "registration_request cfg clickId =
     postback_url cfg (the clickId) (status_registration cfg) None None"

definition webhook_row :: "date \<Rightarrow> stripe_event \<Rightarrow> webhook_event" where
  "webhook_row now event =
     \<lparr>we_source = ''stripe'', eventId = ev_id event, eventType = ev_type event,
      we_payload = event, processed = False, processedAt = None,
      we_error = None, we_createdAt = now\<rparr>"

subsection \<open>Sample data\<close>

text \<open>Concrete configurations, worlds and environments at which the theorems are instantiated.\<close>

definition demo_config :: config where
  "demo_config = \<lparr>trackerUrl = ''https://tracker.example'', postbackKey = ''k'',
     status_registration = ''reg'', status_purchase = ''sale'',
     webhookSecret = ''whsec'', price_annual = ''price_annual''\<rparr>"

definition empty_world :: world where
  "empty_world = \<lparr>users = [], payments = [], webhookEvents = [], trackingEvents = [],
     postbacks = [], retrievals = []\<rparr>"

definition tracker_always :: "http_result \<Rightarrow> tracker" where
  "tracker_always r history req = r"

definition tracker_redirect :: tracker where
  "tracker_redirect history req =
     (if req_params req = [] then Response 200 None
      else Response 302 (Some ''https://tracker.example/done''))"

definition demo_user :: user where
  "demo_user = \<lparr>user_id = ''u1'', stripeCustomerId = None, subscriptionId = None,
     subscriptionStatus = Some ''inactive'', subscriptionPlan = None, subscriptionEndDate = None,
     keitaroSubId = Some ''stored-click'', updatedAt = 0\<rparr>"

definition demo_object :: stripe_object where
  "demo_object = \<lparr>so_id = ''sub_1'', so_status = ''active'', so_userId = Some ''u1'',
     so_keitaroSubId = None, so_subscription = None, so_payment_intent = None,
     so_amount_total = None, so_amount_paid = 0, so_currency = None, so_price = None,
     so_current_period_end = 1700000000\<rparr>"

definition demo_event :: "string \<Rightarrow> stripe_event" where
  "demo_event ty = \<lparr>ev_id = ''evt_1'', ev_type = ty, ev_object = demo_object\<rparr>"

definition demo_construct :: construct_event where
  "demo_construct payload signature secret =
     (if signature = secret then Some (demo_event payload) else None)"

definition demo_api :: retrieve where
  "demo_api sid = Inl ''No such subscription''"

definition demo_tracking :: "nat \<Rightarrow> string \<Rightarrow> date \<Rightarrow> tracking_event" where
  "demo_tracking i ty created =
     \<lparr>te_id = i, te_userId = Some ''u1'', te_eventType = ty, subId = Some ''click1'',
      te_status = Some ''reg'', te_amount = None, te_currency = None,
      sentToTracker = False, sentAt = None, te_createdAt = created\<rparr>"

definition sweep_world :: world where
  "sweep_world = empty_world\<lparr>trackingEvents :=
     [demo_tracking 1 ''registration'' 10000000,
      demo_tracking 2 ''registration'' 96400000,
      demo_tracking 3 ''custom'' 96400000]\<rparr>"


section \<open>Postback dispatcher\<close>

lemma follow_direct:
  "trk history req = Response status location \<Longrightarrow> \<not> is_redirect status location \<Longrightarrow>
   follow_redirects trk n history req = Returned status"
  by (cases n) simp_all

lemma follow_failure:
  "trk history req = NetworkFailure \<Longrightarrow> follow_redirects trk n history req = Thrown ''Network Error''"
  by (cases n) simp_all

lemma follow_hop:
  "trk history req = Response status location \<Longrightarrow> is_redirect status location \<Longrightarrow>
   follow_redirects trk (Suc n) history req
     = follow_redirects trk n (history @ [req]) \<lparr>req_base = the location, req_params = []\<rparr>"
  by simp

lemma sendPostback_eq:
  "sendPostback cfg trk clickId status amount currency w =
     (postback_delivered trk (postbacks w) (postback_url cfg clickId status amount currency),
      w\<lparr>postbacks := postbacks w @ [postback_url cfg clickId status amount currency]\<rparr>)"
  by (auto simp: sendPostback_def axios_get_def validateStatus_def Let_def postback_delivered_def
      split: outcome.split)

text \<open>
  Claim C3, as the code has it. \<^verbatim>\<open>validateStatus\<close> only keeps axios from throwing
  below 500; the result is then decided by \<^verbatim>\<open>response.status === 200\<close>. So
  \<^verbatim>\<open>sendPostback\<close> returns true exactly when the response the call ends with, after
  the client has followed redirects, has status 200. A response that is not a redirect to
  follow decides at once: true for 200, false for every other status (another 2xx, a 3xx
  without a location, a 4xx, a 5xx). A network failure gives false. A redirect that is
  followed hands the decision to the next response, with one redirect fewer allowed.
\<close>

theorem sendPostback_status_200:
  "fst (sendPostback cfg trk clickId status amount currency w)
     = (follow_redirects trk maxRedirects (postbacks w)
          (postback_url cfg clickId status amount currency) = Returned 200)
   \<and> (\<forall>s location.
         trk (postbacks w) (postback_url cfg clickId status amount currency) = Response s location
         \<and> \<not> (location \<noteq> None \<and> location \<noteq> Some [] \<and> 300 \<le> s \<and> s < 400) \<longrightarrow>
         fst (sendPostback cfg trk clickId status amount currency w) = (s = 200))
   \<and> (trk (postbacks w) (postback_url cfg clickId status amount currency) = NetworkFailure \<longrightarrow>
         fst (sendPostback cfg trk clickId status amount currency w) = False)
   \<and> (\<forall>s location.
         trk (postbacks w) (postback_url cfg clickId status amount currency) = Response s (Some location)
         \<and> location \<noteq> [] \<and> 300 \<le> s \<and> s < 400 \<longrightarrow>
         fst (sendPostback cfg trk clickId status amount currency w)
           = (follow_redirects trk 20
                (postbacks w @ [postback_url cfg clickId status amount currency])
                \<lparr>req_base = location, req_params = []\<rparr> = Returned 200))"
proof -
  let ?req = "postback_url cfg clickId status amount currency"
  have r: "is_redirect s location = (location \<noteq> None \<and> location \<noteq> Some [] \<and> 300 \<le> s \<and> s < 400)"
    for s location
    by (cases location) (simp_all add: is_redirect_def truthy_str_def)
  have m: "maxRedirects = Suc 20"
    by (simp add: maxRedirects_def)
  have a: "fst (sendPostback cfg trk clickId status amount currency w)
     = (follow_redirects trk maxRedirects (postbacks w) ?req = Returned 200)"
    by (simp add: sendPostback_eq postback_delivered_def)
  have b: "fst (sendPostback cfg trk clickId status amount currency w) = (s = 200)"
    if "trk (postbacks w) ?req = Response s location"
      and "\<not> (location \<noteq> None \<and> location \<noteq> Some [] \<and> 300 \<le> s \<and> s < 400)" for s location
  proof -
    from that(2) have "\<not> is_redirect s location" by (simp only: r not_False_eq_True)
    from follow_direct [where trk = trk, OF that(1) this] show ?thesis by (simp add: a)
  qed
  have c: "fst (sendPostback cfg trk clickId status amount currency w) = False"
    if "trk (postbacks w) ?req = NetworkFailure"
    by (simp add: a follow_failure [where trk = trk, OF that])
  have d: "fst (sendPostback cfg trk clickId status amount currency w)
           = (follow_redirects trk 20 (postbacks w @ [?req])
                \<lparr>req_base = location, req_params = []\<rparr> = Returned 200)"
    if "trk (postbacks w) ?req = Response s (Some location)"
      and "location \<noteq> [] \<and> 300 \<le> s \<and> s < 400" for s location
  proof -
    from that(2) have "is_redirect s (Some location)" by (simp add: r)
    from follow_hop [where trk = trk and n = 20, OF that(1) this] show ?thesis by (simp add: a m)
  qed
  from a b c d show ?thesis by blast
qed

theorem sendPostback_status_200_witness:
  "fst (sendPostback demo_config tracker_redirect ''click1'' ''reg'' None None empty_world) = True \<and>
   fst (sendPostback demo_config (tracker_always (Response 200 None)) ''click1'' ''reg'' None None
          empty_world) = True \<and>
   fst (sendPostback demo_config (tracker_always (Response 204 None)) ''click1'' ''reg'' None None
          empty_world) = False \<and>
   fst (sendPostback demo_config (tracker_always (Response 302 None)) ''click1'' ''reg'' None None
          empty_world) = False \<and>
   fst (sendPostback demo_config (tracker_always NetworkFailure) ''click1'' ''reg'' None None
          empty_world) = False"
proof -
  let ?req = "postback_url demo_config ''click1'' ''reg'' None None"
  have p: "req_params ?req \<noteq> []"
    by (simp add: postback_url_def)
  have hop: "tracker_redirect (postbacks empty_world) ?req
               = Response 302 (Some ''https://tracker.example/done'')"
    using p by (simp add: tracker_redirect_def)
  have last: "follow_redirects tracker_redirect 20 (postbacks empty_world @ [?req])
                \<lparr>req_base = ''https://tracker.example/done'', req_params = []\<rparr> = Returned 200"
    by (rule follow_direct [where location = None])
       (simp_all add: tracker_redirect_def is_redirect_def truthy_str_def)
  have pre: "tracker_redirect (postbacks empty_world) ?req
               = Response 302 (Some ''https://tracker.example/done'')
             \<and> ''https://tracker.example/done'' \<noteq> [] \<and> (300::int) \<le> 302 \<and> (302::int) < 400"
    using hop by simp
  note followed = sendPostback_status_200 [of demo_config tracker_redirect "''click1''" "''reg''"
      None None empty_world, THEN conjunct2, THEN conjunct2, THEN conjunct2, rule_format,
      of 302 "''https://tracker.example/done''"]
  have one: "fst (sendPostback demo_config tracker_redirect ''click1'' ''reg'' None None empty_world) = True"
    using followed [OF pre] last by simp
  have two: "fst (sendPostback demo_config (tracker_always (Response s None)) ''click1'' ''reg'' None None
          empty_world) = (s = 200)" for s
  proof -
    have direct: "tracker_always (Response s None) (postbacks empty_world) ?req = Response s None
        \<and> \<not> ((None :: string option) \<noteq> None \<and> (None :: string option) \<noteq> Some []
              \<and> 300 \<le> s \<and> s < 400)"
      by (simp add: tracker_always_def)
    from sendPostback_status_200 [of demo_config "tracker_always (Response s None)" "''click1''"
        "''reg''" None None empty_world, THEN conjunct2, THEN conjunct1, rule_format, OF direct]
    show ?thesis .
  qed
  have three: "fst (sendPostback demo_config (tracker_always NetworkFailure) ''click1'' ''reg'' None None
          empty_world) = False"
  proof -
    have down: "tracker_always NetworkFailure (postbacks empty_world) ?req = NetworkFailure"
      by (simp add: tracker_always_def)
    from sendPostback_status_200 [of demo_config "tracker_always NetworkFailure" "''click1''"
        "''reg''" None None empty_world, THEN conjunct2, THEN conjunct2, THEN conjunct1,
        rule_format, OF down]
    show ?thesis .
  qed
  from one two [of 200] two [of 204] two [of 302] three show ?thesis by simp
qed

text \<open>
  Claim C3 as stated fails: a 404 passes \<^verbatim>\<open>validateStatus\<close> and lies in the 4xx
  range, yet \<^verbatim>\<open>sendPostback\<close> returns false.
\<close>

theorem sendPostback_404_counterexample:
  "validateStatus 404 \<and> (400::int) \<le> 404 \<and> (404::int) < 500 \<and>
   fst (sendPostback demo_config (tracker_always (Response 404 None)) ''click1'' ''reg'' None None empty_world) = False"
proof -
  have "follow_redirects (tracker_always (Response 404 None)) maxRedirects (postbacks empty_world)
          (postback_url demo_config ''click1'' ''reg'' None None) = Returned 404"
    by (rule follow_direct [where location = None])
       (simp_all add: tracker_always_def is_redirect_def truthy_str_def)
  then show ?thesis
    by (simp add: sendPostback_eq postback_delivered_def validateStatus_def)
qed

section \<open>Conversion tracking\<close>

lemma foldr_max_ge: "x \<in> set xs \<Longrightarrow> x \<le> foldr max xs (0::nat)"
  by (induction xs) auto

lemma fresh_id_new: "x \<in> set rows \<Longrightarrow> te_id x \<noteq> fresh_id rows"
  using foldr_max_ge [of "te_id x" "map te_id rows"] by (auto simp: fresh_id_def)

lemma update_old:
  "map (\<lambda>x. if te_id x = fresh_id rows then f x else x) rows = rows"
  by (rule map_idI) (simp add: fresh_id_new)

lemma trackPurchase_tracked:
  assumes "truthy_str (resolve_clickId userId clickArg w)" and "int4 (Math_round amount)"
  shows "trackPurchase cfg trk now userId amount currencyArg clickArg w =
    (Returned (),
     w\<lparr>trackingEvents := trackingEvents w @
          [mark_sent now
             (postback_delivered trk (postbacks w)
                (purchase_request cfg amount currencyArg (resolve_clickId userId clickArg w)))
             (purchase_row cfg now userId amount currencyArg (resolve_clickId userId clickArg w) w)],
       postbacks := postbacks w @ [purchase_request cfg amount currencyArg (resolve_clickId userId clickArg w)]\<rparr>)"
  using assms
  by (simp add: trackPurchase_def Let_def trackingEvent_create_def sendPostback_eq
      trackingEvent_update_def update_old purchase_row_def purchase_request_def)

lemma trackPurchase_refused:
  assumes "truthy_str (resolve_clickId userId clickArg w)" and "\<not> int4 (Math_round amount)"
  shows "trackPurchase cfg trk now userId amount currencyArg clickArg w = (Thrown int4_error, w)"
  using assms
  by (simp add: trackPurchase_def Let_def trackingEvent_create_def)

lemma trackRegistration_tracked:
  assumes "truthy_str (resolve_clickId userId clickArg w)"
  shows "trackRegistration cfg trk now userId clickArg w =
    (Returned (),
     w\<lparr>trackingEvents := trackingEvents w @
          [mark_sent now
             (postback_delivered trk (postbacks w)
                (registration_request cfg (resolve_clickId userId clickArg w)))
             (registration_row cfg now userId (resolve_clickId userId clickArg w) w)],
       postbacks := postbacks w @ [registration_request cfg (resolve_clickId userId clickArg w)]\<rparr>)"
  using assms
  by (simp add: trackRegistration_def Let_def trackingEvent_create_def sendPostback_eq
      trackingEvent_update_def update_old registration_row_def registration_request_def)

lemma trackPurchase_untracked:
  "\<not> truthy_str (resolve_clickId userId clickArg w) \<Longrightarrow>
   trackPurchase cfg trk now userId amount currencyArg clickArg w = (Returned (), w)"
  by (simp add: trackPurchase_def Let_def)

lemma trackRegistration_untracked:
  "\<not> truthy_str (resolve_clickId userId clickArg w) \<Longrightarrow>
   trackRegistration cfg trk now userId clickArg w = (Returned (), w)"
  by (simp add: trackRegistration_def Let_def)

lemma Math_round_of_int: "Math_round (of_int n) = n"
proof -
  have "\<lfloor>(1::rat) / 2\<rfloor> = 0" by (simp add: floor_eq_iff)
  then show ?thesis by (simp add: Math_round_def)
qed

lemma payout_param:
  "map_of (req_params (postback_url cfg clickId status (Some a) currency)) ''payout'' = Some (QNum a)"
  by (simp add: postback_url_def)

lemma resolve_given: "truthy_str clickId \<Longrightarrow> resolve_clickId userId clickId w = clickId"
  by (simp add: resolve_clickId_def)


lemma tracker_always_failure:
  "\<not> postback_delivered (tracker_always NetworkFailure) history req"
  by (simp add: postback_delivered_def follow_failure tracker_always_def)

text \<open>
  Claim C5, as the code has it. The \<^verbatim>\<open>amount\<close> column is a 32-bit \<^verbatim>\<open>Int\<close>. A
  purchase of \<open>n\<close> minor units that fits it, tracked with a click identifier, appends one
  tracking event whose amount is \<open>n\<close> and sends one postback whose \<^verbatim>\<open>payout\<close>
  parameter is \<open>n / 100\<close>; for 999 that is 999 and 9.99. An amount that does not fit makes
  the \<^verbatim>\<open>create\<close> throw: \<^verbatim>\<open>trackPurchase\<close> throws, stores nothing and sends nothing.
\<close>

theorem trackPurchase_minor_units:
  assumes "truthy_str (resolve_clickId userId clickArg w)"
  shows "(- 2147483648 \<le> n \<and> n \<le> 2147483647 \<longrightarrow>
          (let w' = snd (trackPurchase cfg trk now userId (of_int n) currencyArg clickArg w)
           in fst (trackPurchase cfg trk now userId (of_int n) currencyArg clickArg w) = Returned ()
            \<and> length (trackingEvents w') = Suc (length (trackingEvents w))
            \<and> butlast (trackingEvents w') = trackingEvents w
            \<and> te_amount (last (trackingEvents w')) = Some n
            \<and> butlast (postbacks w') = postbacks w
            \<and> length (postbacks w') = Suc (length (postbacks w))
            \<and> map_of (req_params (last (postbacks w'))) ''payout'' = Some (QNum (of_int n / 100))))
       \<and> (\<not> (- 2147483648 \<le> n \<and> n \<le> 2147483647) \<longrightarrow>
            trackPurchase cfg trk now userId (of_int n) currencyArg clickArg w = (Thrown int4_error, w))"
proof (intro conjI impI)
  assume "- 2147483648 \<le> n \<and> n \<le> 2147483647"
  then have fits: "int4 (Math_round (of_int n))"
    by (simp add: Math_round_of_int int4_def)
  show "let w' = snd (trackPurchase cfg trk now userId (of_int n) currencyArg clickArg w)
           in fst (trackPurchase cfg trk now userId (of_int n) currencyArg clickArg w) = Returned ()
            \<and> length (trackingEvents w') = Suc (length (trackingEvents w))
            \<and> butlast (trackingEvents w') = trackingEvents w
            \<and> te_amount (last (trackingEvents w')) = Some n
            \<and> butlast (postbacks w') = postbacks w
            \<and> length (postbacks w') = Suc (length (postbacks w))
            \<and> map_of (req_params (last (postbacks w'))) ''payout'' = Some (QNum (of_int n / 100))"
    by (simp add: trackPurchase_tracked [OF assms fits] Let_def mark_sent_def purchase_row_def
        purchase_request_def Math_round_of_int payout_param)
next
  assume "\<not> (- 2147483648 \<le> n \<and> n \<le> 2147483647)"
  then have "\<not> int4 (Math_round (of_int n))"
    by (simp add: Math_round_of_int int4_def)
  from trackPurchase_refused [OF assms this]
  show "trackPurchase cfg trk now userId (of_int n) currencyArg clickArg w = (Thrown int4_error, w)" .
qed

theorem trackPurchase_minor_units_witness:
  "truthy_str (resolve_clickId ''u1'' (Some ''click1'') empty_world) \<and>
   fst (trackPurchase demo_config (tracker_always (Response 200 None)) 1000
      ''u1'' 999 (Some ''USD'') (Some ''click1'') empty_world) = Returned () \<and>
   te_amount (last (trackingEvents (snd (trackPurchase demo_config (tracker_always (Response 200 None)) 1000
      ''u1'' 999 (Some ''USD'') (Some ''click1'') empty_world)))) = Some 999 \<and>
   map_of (req_params (last (postbacks (snd (trackPurchase demo_config (tracker_always (Response 200 None)) 1000
      ''u1'' 999 (Some ''USD'') (Some ''click1'') empty_world))))) ''payout'' = Some (QNum (999 / 100)) \<and>
   trackPurchase demo_config (tracker_always (Response 200 None)) 1000
      ''u1'' 2147483648 (Some ''USD'') (Some ''click1'') empty_world = (Thrown int4_error, empty_world)"
proof -
  have h: "truthy_str (resolve_clickId ''u1'' (Some ''click1'') empty_world)"
    by (simp add: resolve_clickId_def truthy_str_def)
  from trackPurchase_minor_units [OF h, of 999 demo_config "tracker_always (Response 200 None)" 1000
      "Some ''USD''"]
  have a: "fst (trackPurchase demo_config (tracker_always (Response 200 None)) 1000
      ''u1'' 999 (Some ''USD'') (Some ''click1'') empty_world) = Returned () \<and>
   te_amount (last (trackingEvents (snd (trackPurchase demo_config (tracker_always (Response 200 None)) 1000
      ''u1'' 999 (Some ''USD'') (Some ''click1'') empty_world)))) = Some 999 \<and>
   map_of (req_params (last (postbacks (snd (trackPurchase demo_config (tracker_always (Response 200 None)) 1000
      ''u1'' 999 (Some ''USD'') (Some ''click1'') empty_world))))) ''payout'' = Some (QNum (999 / 100))"
    by (simp add: Let_def)
  from trackPurchase_minor_units [OF h, of 2147483648 demo_config "tracker_always (Response 200 None)" 1000
      "Some ''USD''"]
  have b: "trackPurchase demo_config (tracker_always (Response 200 None)) 1000
      ''u1'' 2147483648 (Some ''USD'') (Some ''click1'') empty_world = (Thrown int4_error, empty_world)"
    by simp
  from h a b show ?thesis by simp
qed

text \<open>
  Claim C5 as stated fails for an amount the column cannot hold: tracking 2147483648 minor
  units with a click identifier throws, and neither a tracking event nor a postback exists
  afterwards.
\<close>

theorem trackPurchase_minor_units_counterexample:
  "fst (trackPurchase demo_config (tracker_always (Response 200 None)) 1000
      ''u1'' 2147483648 (Some ''USD'') (Some ''click1'') empty_world) = Thrown int4_error \<and>
   trackingEvents (snd (trackPurchase demo_config (tracker_always (Response 200 None)) 1000
      ''u1'' 2147483648 (Some ''USD'') (Some ''click1'') empty_world)) = [] \<and>
   postbacks (snd (trackPurchase demo_config (tracker_always (Response 200 None)) 1000
      ''u1'' 2147483648 (Some ''USD'') (Some ''click1'') empty_world)) = []"
proof -
  have h: "truthy_str (resolve_clickId ''u1'' (Some ''click1'') empty_world)"
    by (simp add: resolve_clickId_def truthy_str_def)
  have r: "Math_round 2147483648 = 2147483648"
    using Math_round_of_int [of 2147483648] by simp
  have "\<not> int4 (Math_round 2147483648)"
    by (simp add: r int4_def)
  from trackPurchase_refused [OF h this]
  show ?thesis by (simp add: empty_world_def)
qed

text \<open>
  Claim C7, as the code has it. Whether \<^verbatim>\<open>trackPurchase\<close> throws never depends on the
  tracker. When the rounded amount fits the 32-bit \<^verbatim>\<open>amount\<close> column and the postback
  does not end with status 200 (no response in time, a network error, too many
  redirects, any other status), \<^verbatim>\<open>trackPurchase\<close> returns normally and the tracking
  event it created is in the table with \<^verbatim>\<open>sentToTracker\<close> false and no
  \<^verbatim>\<open>sentAt\<close>.
\<close>

theorem trackPurchase_tracker_failure:
  assumes "resolve_clickId userId clickArg w = Some clickId" and "clickId \<noteq> []"
  shows "fst (trackPurchase cfg trk now userId amount currencyArg clickArg w)
           = fst (trackPurchase cfg other now userId amount currencyArg clickArg w)
     \<and> (- 2147483648 \<le> Math_round amount \<and> Math_round amount \<le> 2147483647
        \<and> follow_redirects trk maxRedirects (postbacks w)
            (postback_url cfg clickId (status_purchase cfg) (Some (amount / 100))
               (Some (case currencyArg of None \<Rightarrow> ''USD'' | Some c \<Rightarrow> c))) \<noteq> Returned 200
        \<longrightarrow>
          fst (trackPurchase cfg trk now userId amount currencyArg clickArg w) = Returned () \<and>
          (let rows = trackingEvents (snd (trackPurchase cfg trk now userId amount currencyArg clickArg w))
           in butlast rows = trackingEvents w
            \<and> length rows = Suc (length (trackingEvents w))
            \<and> te_eventType (last rows) = ''purchase''
            \<and> subId (last rows) = Some clickId
            \<and> sentToTracker (last rows) = False
            \<and> sentAt (last rows) = None))"
proof -
  have t: "truthy_str (resolve_clickId userId clickArg w)"
    using assms by (simp add: truthy_str_def)
  have same: "fst (trackPurchase cfg trk now userId amount currencyArg clickArg w)
           = fst (trackPurchase cfg other now userId amount currencyArg clickArg w)"
  proof (cases "int4 (Math_round amount)")
    case True
    then show ?thesis by (simp add: trackPurchase_tracked [OF t])
  next
    case False
    then show ?thesis by (simp add: trackPurchase_refused [OF t])
  qed
  have failed: "fst (trackPurchase cfg trk now userId amount currencyArg clickArg w) = Returned () \<and>
          (let rows = trackingEvents (snd (trackPurchase cfg trk now userId amount currencyArg clickArg w))
           in butlast rows = trackingEvents w
            \<and> length rows = Suc (length (trackingEvents w))
            \<and> te_eventType (last rows) = ''purchase''
            \<and> subId (last rows) = Some clickId
            \<and> sentToTracker (last rows) = False
            \<and> sentAt (last rows) = None)"
    if "- 2147483648 \<le> Math_round amount \<and> Math_round amount \<le> 2147483647"
      and "follow_redirects trk maxRedirects (postbacks w)
            (postback_url cfg clickId (status_purchase cfg) (Some (amount / 100))
               (Some (case currencyArg of None \<Rightarrow> ''USD'' | Some c \<Rightarrow> c))) \<noteq> Returned 200"
  proof -
    from that(1) have fits: "int4 (Math_round amount)" by (simp add: int4_def)
    show ?thesis
      using that(2)
      by (simp add: trackPurchase_tracked [OF t fits] Let_def mark_sent_def purchase_row_def
          purchase_request_def postback_delivered_def assms(1))
  qed
  from same failed show ?thesis by blast
qed

theorem trackPurchase_tracker_failure_witness:
  "resolve_clickId ''u1'' (Some ''click1'') empty_world = Some ''click1'' \<and>
   fst (trackPurchase demo_config (tracker_always NetworkFailure) 1000 ''u1'' 999 (Some ''USD'')
          (Some ''click1'') empty_world) = Returned () \<and>
   map sentToTracker (trackingEvents (snd (trackPurchase demo_config (tracker_always NetworkFailure) 1000
          ''u1'' 999 (Some ''USD'') (Some ''click1'') empty_world))) = [False] \<and>
   map sentAt (trackingEvents (snd (trackPurchase demo_config (tracker_always NetworkFailure) 1000
          ''u1'' 999 (Some ''USD'') (Some ''click1'') empty_world))) = [None]"
proof -
  have h1: "resolve_clickId ''u1'' (Some ''click1'') empty_world = Some ''click1''"
    by (simp add: resolve_clickId_def truthy_str_def)
  have h2: "''click1'' \<noteq> []" by simp
  have r: "Math_round 999 = 999"
    using Math_round_of_int [of 999] by simp
  have h3: "follow_redirects (tracker_always NetworkFailure) maxRedirects (postbacks empty_world)
           (postback_url demo_config ''click1'' (status_purchase demo_config) (Some (999 / 100))
              (Some (case Some ''USD'' of None \<Rightarrow> ''USD'' | Some c \<Rightarrow> c))) \<noteq> Returned 200"
    by (simp add: follow_failure tracker_always_def)
  have e: "trackingEvents empty_world = []" by (simp add: empty_world_def)
  from trackPurchase_tracker_failure [where trk = "tracker_always NetworkFailure"
      and other = "tracker_always NetworkFailure"
      and cfg = demo_config and amount = 999 and currencyArg = "Some ''USD''" and now = 1000, OF h1 h2]
    h3
  show ?thesis using h1 by (auto simp: Let_def e r butlast_conv_take length_Suc_conv)
qed

text \<open>
  Claim C7 as stated fails for an amount the column cannot hold: with the tracker
  unreachable, tracking 2147483648 minor units with a click identifier throws and no
  tracking event is created.
\<close>

theorem trackPurchase_tracker_failure_counterexample:
  "fst (trackPurchase demo_config (tracker_always NetworkFailure) 1000
      ''u1'' 2147483648 (Some ''USD'') (Some ''click1'') empty_world) = Thrown int4_error \<and>
   trackingEvents (snd (trackPurchase demo_config (tracker_always NetworkFailure) 1000
      ''u1'' 2147483648 (Some ''USD'') (Some ''click1'') empty_world)) = []"
proof -
  have h: "truthy_str (resolve_clickId ''u1'' (Some ''click1'') empty_world)"
    by (simp add: resolve_clickId_def truthy_str_def)
  have r: "Math_round 2147483648 = 2147483648"
    using Math_round_of_int [of 2147483648] by simp
  have "\<not> int4 (Math_round 2147483648)"
    by (simp add: r int4_def)
  from trackPurchase_refused [OF h this]
  show ?thesis by (simp add: empty_world_def)
qed

text \<open>
  Claim C10. Called without a click identifier (absent or empty), both tracking methods
  behave as if called with the \<^verbatim>\<open>keitaroSubId\<close> stored on the user: a registration
  creates a row carrying it, and so does a purchase whose rounded amount fits the 32-bit
  \<^verbatim>\<open>amount\<close> column, while a purchase whose amount does not fit throws at the
  \<^verbatim>\<open>create\<close>. When the user is missing or stores none, they return at once and leave
  the world as it is, so no tracking event is created.
\<close>

theorem tracking_clickId_fallback:
  assumes "\<not> truthy_str clickArg"
  shows "let stored = (case user_findUnique userId w of None \<Rightarrow> None | Some u \<Rightarrow> keitaroSubId u)
    in (truthy_str stored \<longrightarrow>
          trackRegistration cfg trk now userId clickArg w
            = trackRegistration cfg trk now userId stored w
        \<and> trackPurchase cfg trk now userId amount currencyArg clickArg w
            = trackPurchase cfg trk now userId amount currencyArg stored w
        \<and> fst (trackRegistration cfg trk now userId clickArg w) = Returned ()
        \<and> map subId (trackingEvents (snd (trackRegistration cfg trk now userId clickArg w)))
            = map subId (trackingEvents w) @ [stored]
        \<and> (- 2147483648 \<le> Math_round amount \<and> Math_round amount \<le> 2147483647 \<longrightarrow>
             fst (trackPurchase cfg trk now userId amount currencyArg clickArg w) = Returned ()
           \<and> map subId (trackingEvents (snd (trackPurchase cfg trk now userId amount currencyArg clickArg w)))
               = map subId (trackingEvents w) @ [stored])
        \<and> (\<not> (- 2147483648 \<le> Math_round amount \<and> Math_round amount \<le> 2147483647) \<longrightarrow>
             trackPurchase cfg trk now userId amount currencyArg clickArg w = (Thrown int4_error, w)))
     \<and> (\<not> truthy_str stored \<longrightarrow>
          trackRegistration cfg trk now userId clickArg w = (Returned (), w)
        \<and> trackPurchase cfg trk now userId amount currencyArg clickArg w = (Returned (), w))"
proof -
  define stored where "stored = (case user_findUnique userId w of None \<Rightarrow> None | Some u \<Rightarrow> keitaroSubId u)"
  define fits where "fits \<longleftrightarrow> - 2147483648 \<le> Math_round amount \<and> Math_round amount \<le> 2147483647"
  have fits_int4: "fits = int4 (Math_round amount)"
    by (simp add: fits_def int4_def)
  have r: "resolve_clickId userId clickArg w = or_absent stored"
    using assms by (simp add: resolve_clickId_def stored_def or_absent_def truthy_str_def split: option.splits)
  have r': "truthy_str stored \<Longrightarrow> resolve_clickId userId stored w = stored"
    by (rule resolve_given)
  have yes: "truthy_str stored \<Longrightarrow> truthy_str (resolve_clickId userId clickArg w)"
    and same: "truthy_str stored \<Longrightarrow> resolve_clickId userId clickArg w = stored"
    and no: "\<not> truthy_str stored \<Longrightarrow> \<not> truthy_str (resolve_clickId userId clickArg w)"
    by (simp_all add: r or_absent_def truthy_str_def)
  have "truthy_str stored \<Longrightarrow>
          trackRegistration cfg trk now userId clickArg w
            = trackRegistration cfg trk now userId stored w"
    by (simp add: trackRegistration_tracked yes same r')
  moreover have "truthy_str stored \<Longrightarrow>
          trackPurchase cfg trk now userId amount currencyArg clickArg w
            = trackPurchase cfg trk now userId amount currencyArg stored w"
    by (cases "int4 (Math_round amount)")
       (simp_all add: trackPurchase_tracked trackPurchase_refused yes same r')
  moreover have "truthy_str stored \<Longrightarrow>
      fst (trackRegistration cfg trk now userId clickArg w) = Returned ()"
    by (simp add: trackRegistration_tracked yes)
  moreover have "truthy_str stored \<Longrightarrow>
      map subId (trackingEvents (snd (trackRegistration cfg trk now userId clickArg w)))
            = map subId (trackingEvents w) @ [stored]"
    by (simp add: trackRegistration_tracked yes same mark_sent_def registration_row_def)
  moreover have "truthy_str stored \<Longrightarrow> fits \<Longrightarrow>
      fst (trackPurchase cfg trk now userId amount currencyArg clickArg w) = Returned ()"
    by (simp add: trackPurchase_tracked yes fits_int4)
  moreover have "truthy_str stored \<Longrightarrow> fits \<Longrightarrow>
      map subId (trackingEvents (snd (trackPurchase cfg trk now userId amount currencyArg clickArg w)))
            = map subId (trackingEvents w) @ [stored]"
    by (simp add: trackPurchase_tracked yes same fits_int4 mark_sent_def purchase_row_def)
  moreover have "truthy_str stored \<Longrightarrow> \<not> fits \<Longrightarrow>
      trackPurchase cfg trk now userId amount currencyArg clickArg w = (Thrown int4_error, w)"
    by (simp add: trackPurchase_refused yes fits_int4)
  moreover have "\<not> truthy_str stored \<Longrightarrow>
          trackRegistration cfg trk now userId clickArg w = (Returned (), w)"
    by (simp add: trackRegistration_untracked no)
  moreover have "\<not> truthy_str stored \<Longrightarrow>
          trackPurchase cfg trk now userId amount currencyArg clickArg w = (Returned (), w)"
    by (simp add: trackPurchase_untracked no)
  ultimately show ?thesis
    unfolding stored_def [symmetric] fits_def [symmetric] Let_def by blast
qed

theorem tracking_clickId_fallback_witness:
  "map subId (trackingEvents (snd (trackRegistration demo_config (tracker_always (Response 200 None)) 1000
       ''u1'' None (empty_world\<lparr>users := [demo_user]\<rparr>)))) = [Some ''stored-click''] \<and>
   map subId (trackingEvents (snd (trackPurchase demo_config (tracker_always (Response 200 None)) 1000
       ''u1'' 999 (Some ''USD'') None (empty_world\<lparr>users := [demo_user]\<rparr>)))) = [Some ''stored-click''] \<and>
   trackRegistration demo_config (tracker_always (Response 200 None)) 1000 ''u1'' None empty_world
     = (Returned (), empty_world) \<and>
   trackPurchase demo_config (tracker_always (Response 200 None)) 1000 ''u1'' 999 (Some ''USD'') None empty_world
     = (Returned (), empty_world)"
proof -
  have h: "\<not> truthy_str None" by (simp add: truthy_str_def)
  have u: "user_findUnique ''u1'' (empty_world\<lparr>users := [demo_user]\<rparr>) = Some demo_user"
    by (simp add: user_findUnique_def demo_user_def)
  have n: "user_findUnique ''u1'' empty_world = None"
    by (simp add: user_findUnique_def empty_world_def)
  have k: "keitaroSubId demo_user = Some ''stored-click''"
       "truthy_str (Some ''stored-click'')"
    by (simp_all add: demo_user_def truthy_str_def)
  have e: "trackingEvents (empty_world\<lparr>users := [demo_user]\<rparr>) = []"
    by (simp add: empty_world_def)
  have m: "Math_round 999 = 999"
    using Math_round_of_int [of 999] by simp
  have f: "- 2147483648 \<le> Math_round 999 \<and> Math_round 999 \<le> 2147483647"
    by (simp add: m)
  note t = tracking_clickId_fallback [OF h, of "''u1''" "empty_world\<lparr>users := [demo_user]\<rparr>"
      demo_config "tracker_always (Response 200 None)" 1000 999 "Some ''USD''",
      unfolded Let_def u option.case k(1) e list.map append_Nil]
  from t k(2) f
  have a: "map subId (trackingEvents (snd (trackRegistration demo_config (tracker_always (Response 200 None)) 1000
       ''u1'' None (empty_world\<lparr>users := [demo_user]\<rparr>)))) = [Some ''stored-click''] \<and>
   map subId (trackingEvents (snd (trackPurchase demo_config (tracker_always (Response 200 None)) 1000
       ''u1'' 999 (Some ''USD'') None (empty_world\<lparr>users := [demo_user]\<rparr>)))) = [Some ''stored-click'']"
    by blast
  from tracking_clickId_fallback [OF h, of "''u1''" empty_world
      demo_config "tracker_always (Response 200 None)" 1000 999 "Some ''USD''"]
  have b: "trackRegistration demo_config (tracker_always (Response 200 None)) 1000 ''u1'' None empty_world
     = (Returned (), empty_world) \<and>
   trackPurchase demo_config (tracker_always (Response 200 None)) 1000 ''u1'' 999 (Some ''USD'') None empty_world
     = (Returned (), empty_world)"
    by (simp add: Let_def n truthy_str_def)
  from a b show ?thesis by simp
qed

section \<open>Retry sweeper\<close>

lemma retry_event_skip:
  "\<not> retry_sends e \<Longrightarrow> retry_event cfg trk now e w = (Returned (), w)"
  by (auto simp: retry_event_def retry_sends_def)

lemma retry_event_eq:
  assumes "\<exists>x \<in> set (trackingEvents w). te_id x = te_id e"
  shows "retry_event cfg trk now e w =
    (Returned (),
     w\<lparr>postbacks := postbacks w @ (if retry_sends e then [retry_request cfg e] else []),
       trackingEvents :=
         (if retry_sends e \<and> postback_delivered trk (postbacks w) (retry_request cfg e)
          then map (\<lambda>x. if te_id x = te_id e then set_sent now x else x) (trackingEvents w)
          else trackingEvents w)\<rparr>)"
proof (cases "retry_sends e")
  case False
  then show ?thesis by (simp add: retry_event_skip)
next
  case True
  then show ?thesis
    using assms
    by (auto simp: retry_event_def retry_sends_def retry_request_def sendPostback_eq
        trackingEvent_update_def set_sent_def)
qed

lemma retry_event_thrown:
  "retry_event cfg trk now e w = (out, w') \<Longrightarrow>
     trackingEvents w' = trackingEvents w \<or>
     trackingEvents w' = map (\<lambda>x. if te_id x = te_id e then set_sent now x else x) (trackingEvents w)"
  by (auto simp: retry_event_def sendPostback_eq trackingEvent_update_def set_sent_def
      split: if_splits)

lemma te_id_set_sent [simp]: "te_id (set_sent now x) = te_id x"
  by (simp add: set_sent_def)

lemma filter_other_id:
  "i \<noteq> j \<Longrightarrow>
   filter (\<lambda>x. te_id x = i) (map (\<lambda>x. if te_id x = j then set_sent now x else x) rows)
     = filter (\<lambda>x. te_id x = i) rows"
  by (induction rows) auto


lemma ids_after_update:
  "map te_id (map (\<lambda>x. if te_id x = j then set_sent now x else x) rows) = map te_id rows"
  by (induction rows) auto


lemma retry_loop_returns:
  assumes "\<forall>e \<in> set es. te_id e \<in> set (map te_id (trackingEvents w))"
  shows "fst (retry_loop cfg trk now es w) = Returned ()
       \<and> postbacks (snd (retry_loop cfg trk now es w))
           = postbacks w @ map (retry_request cfg) (filter retry_sends es)
       \<and> map te_id (trackingEvents (snd (retry_loop cfg trk now es w)))
           = map te_id (trackingEvents w)"
  using assms
proof (induction es arbitrary: w)
  case Nil
  then show ?case by simp
next
  case (Cons e es)
  have here: "\<exists>x \<in> set (trackingEvents w). te_id x = te_id e"
    using Cons.prems by auto
  obtain w1 where step: "retry_event cfg trk now e w = (Returned (), w1)"
    and pb: "postbacks w1 = postbacks w @ (if retry_sends e then [retry_request cfg e] else [])"
    and ids: "map te_id (trackingEvents w1) = map te_id (trackingEvents w)"
    using retry_event_eq [OF here, of cfg trk now] by (simp add: ids_after_update)
  have "\<forall>x \<in> set es. te_id x \<in> set (map te_id (trackingEvents w1))"
    using Cons.prems ids by simp
  from Cons.IH [OF this] show ?case
    by (simp add: step pb ids)
qed

lemma retry_loop_frame:
  assumes "i \<notin> te_id ` set (filter retry_sends es)"
  shows "filter (\<lambda>x. te_id x = i) (trackingEvents (snd (retry_loop cfg trk now es w)))
       = filter (\<lambda>x. te_id x = i) (trackingEvents w)"
  using assms
proof (induction es arbitrary: w)
  case Nil
  then show ?case by simp
next
  case (Cons e es)
  obtain out w1 where step: "retry_event cfg trk now e w = (out, w1)"
    by (cases "retry_event cfg trk now e w")
  have keep: "filter (\<lambda>x. te_id x = i) (trackingEvents w1) = filter (\<lambda>x. te_id x = i) (trackingEvents w)"
  proof (cases "retry_sends e")
    case False
    with step show ?thesis by (simp add: retry_event_skip)
  next
    case True
    with Cons.prems have "i \<noteq> te_id e" by auto
    with retry_event_thrown [OF step] show ?thesis
      by (auto simp: filter_other_id)
  qed
  have rest: "i \<notin> te_id ` set (filter retry_sends es)"
    using Cons.prems by auto
  show ?case
  proof (cases out)
    case (Returned u)
    with step Cons.IH [OF rest, of w1] keep show ?thesis by simp
  next
    case (Thrown msg)
    with step keep show ?thesis by simp
  qed
qed

lemma failedEvents_sublist:
  "set (failedEvents now w) \<subseteq> {x \<in> set (trackingEvents w). is_failed now x}"
  by (auto simp: failedEvents_def dest: in_set_takeD)


lemma unique_row:
  "distinct (map te_id rows) \<Longrightarrow> e \<in> set rows \<Longrightarrow> filter (\<lambda>x. te_id x = te_id e) rows = [e]"
proof (induction rows)
  case Nil
  then show ?case by simp
next
  case (Cons r rows)
  show ?case
  proof (cases "e = r")
    case True
    have "te_id r \<notin> te_id ` set rows"
      using Cons.prems(1) by simp
    then have "\<forall>x \<in> set rows. te_id x \<noteq> te_id r"
      by (metis imageI)
    then have "filter (\<lambda>x. te_id x = te_id r) rows = []"
      by (simp add: filter_empty_conv)
    with True show ?thesis by simp
  next
    case False
    with Cons.prems have "e \<in> set rows" by simp
    with Cons.prems(1) have "te_id r \<noteq> te_id e" by force
    with Cons \<open>e \<in> set rows\<close> show ?thesis by simp
  qed
qed

lemma failedEvents_in_table:
  "\<forall>e \<in> set (failedEvents now w). te_id e \<in> set (map te_id (trackingEvents w))"
  using failedEvents_sublist [of now w] by auto

lemma distinct_ids_eq:
  "distinct (map te_id rows) \<Longrightarrow> x \<in> set rows \<Longrightarrow> y \<in> set rows \<Longrightarrow> te_id x = te_id y \<Longrightarrow> x = y"
  by (simp add: distinct_map inj_on_def)

text \<open>
  Claim C9. For a selected row without a click identifier, or whose type is neither
  \<^verbatim>\<open>registration\<close> nor a \<^verbatim>\<open>purchase\<close> with a non-zero amount, the loop body changes
  nothing. After the whole sweep the row is in the table as it was, unsent; the requests
  sent by the sweep are those of the other selected rows; and the row satisfies the
  query's condition again at any later time still inside its 24 hours. Primary keys are
  distinct.
\<close>

theorem retry_skips_unsendable:
  assumes sel: "e \<in> set (failedEvents now w)"
    and ids: "distinct (map te_id (trackingEvents w))"
    and skip: "\<not> truthy_str (subId e) \<or>
       (te_eventType e \<noteq> ''registration'' \<and>
        (te_eventType e \<noteq> ''purchase'' \<or> \<not> truthy_num (te_amount e)))"
  shows "(\<forall>v. retry_event cfg trk now e v = (Returned (), v)) \<and>
    (let w' = snd (retryFailedPostbacks cfg trk now w)
     in e \<in> set (trackingEvents w')
      \<and> sentToTracker e = False
      \<and> postbacks w' = postbacks w @ map (retry_request cfg) (filter retry_sends (failedEvents now w))
      \<and> e \<notin> set (filter retry_sends (failedEvents now w))
      \<and> (\<forall>later. later - retry_window \<le> te_createdAt e \<longrightarrow>
            e \<in> set (filter (is_failed later) (trackingEvents w'))))"
proof -
  have ns: "\<not> retry_sends e"
    using skip by (auto simp: retry_sends_def)
  have body: "\<forall>v. retry_event cfg trk now e v = (Returned (), v)"
    using ns by (simp add: retry_event_skip)
  have table: "e \<in> set (trackingEvents w)" and failed: "is_failed now e"
    using sel failedEvents_sublist [of now w] by auto
  have unsent: "sentToTracker e = False"
    using failed by (simp add: is_failed_def)
  let ?w' = "snd (retryFailedPostbacks cfg trk now w)"
  have trace: "postbacks ?w' = postbacks w @ map (retry_request cfg) (filter retry_sends (failedEvents now w))"
    using retry_loop_returns [where es = "failedEvents now w" and w = w and cfg = cfg
        and trk = trk and now = now, OF failedEvents_in_table]
    by (simp add: retryFailedPostbacks_def)
  have other: "te_id e \<notin> te_id ` set (filter retry_sends (failedEvents now w))"
  proof
    assume "te_id e \<in> te_id ` set (filter retry_sends (failedEvents now w))"
    then obtain x where x: "x \<in> set (failedEvents now w)" "retry_sends x" "te_id x = te_id e"
      by auto
    from x(1) have "x \<in> set (trackingEvents w)"
      using failedEvents_sublist [of now w] by auto
    with table ids x(3) have "x = e" by (metis distinct_ids_eq)
    with x(2) ns show False by simp
  qed
  have "filter (\<lambda>x. te_id x = te_id e) (trackingEvents ?w') = [e]"
    using retry_loop_frame [OF other, of cfg trk now w] unique_row [OF ids table]
    by (simp add: retryFailedPostbacks_def)
  then have "e \<in> set (filter (\<lambda>x. te_id x = te_id e) (trackingEvents ?w'))"
    by simp
  then have kept: "e \<in> set (trackingEvents ?w')"
    by simp
  have again: "\<forall>later. later - retry_window \<le> te_createdAt e \<longrightarrow>
            e \<in> set (filter (is_failed later) (trackingEvents ?w'))"
    using kept unsent by (simp add: is_failed_def)
  show ?thesis
    using body kept unsent trace ns again by (simp add: Let_def)
qed

lemma sweep_failed:
  "failedEvents 100000000 sweep_world
     = [demo_tracking 2 ''registration'' 96400000, demo_tracking 3 ''custom'' 96400000]"
  by (simp add: failedEvents_def sweep_world_def empty_world_def is_failed_def retry_window_def
      demo_tracking_def)

lemma sweep_distinct: "distinct (map te_id (trackingEvents sweep_world))"
  by (simp add: sweep_world_def empty_world_def demo_tracking_def)

theorem retry_skips_unsendable_witness:
  "demo_tracking 3 ''custom'' 96400000 \<in> set (failedEvents 100000000 sweep_world) \<and>
   retry_event demo_config (tracker_always (Response 200 None)) 100000000
     (demo_tracking 3 ''custom'' 96400000) sweep_world = (Returned (), sweep_world) \<and>
   demo_tracking 3 ''custom'' 96400000
     \<in> set (trackingEvents (snd (retryFailedPostbacks demo_config (tracker_always (Response 200 None))
               100000000 sweep_world))) \<and>
   demo_tracking 3 ''custom'' 96400000
     \<in> set (filter (is_failed 100000001)
          (trackingEvents (snd (retryFailedPostbacks demo_config (tracker_always (Response 200 None))
               100000000 sweep_world))))"
proof -
  have sel: "demo_tracking 3 ''custom'' 96400000 \<in> set (failedEvents 100000000 sweep_world)"
    by (simp add: sweep_failed)
  have skip: "\<not> truthy_str (subId (demo_tracking 3 ''custom'' 96400000)) \<or>
       (te_eventType (demo_tracking 3 ''custom'' 96400000) \<noteq> ''registration'' \<and>
        (te_eventType (demo_tracking 3 ''custom'' 96400000) \<noteq> ''purchase'' \<or>
         \<not> truthy_num (te_amount (demo_tracking 3 ''custom'' 96400000))))"
    by (simp add: demo_tracking_def)
  have later: "100000001 - retry_window \<le> te_createdAt (demo_tracking 3 ''custom'' 96400000)"
    by (simp add: demo_tracking_def retry_window_def)
  from retry_skips_unsendable [where cfg = demo_config and trk = "tracker_always (Response 200 None)",
      OF sel sweep_distinct skip] sel later
  show ?thesis
    by (simp add: Let_def)
qed




section \<open>Webhook reconciler\<close>

lemma user_update_webhookEvents:
  "webhookEvents (snd (user_update now uid f w)) = webhookEvents w"
  by (simp add: user_update_def)

lemma payment_create_webhookEvents:
  "webhookEvents (snd (payment_create p w)) = webhookEvents w"
  by (simp add: payment_create_def)

lemma retrieve_webhookEvents:
  "subscriptions_retrieve api sid w = (out, w') \<Longrightarrow> webhookEvents w' = webhookEvents w"
  by (auto simp: subscriptions_retrieve_def Let_def split: sum.splits)

lemma updateUserSubscription_webhookEvents:
  "webhookEvents (snd (updateUserSubscription cfg now uid s w)) = webhookEvents w"
  by (simp add: updateUserSubscription_def Let_def user_update_webhookEvents)

lemma handleCheckoutSessionCompleted_webhookEvents:
  "webhookEvents (snd (handleCheckoutSessionCompleted cfg api now s w)) = webhookEvents w"
proof (cases "truthy_str (so_userId s)")
  case False
  then show ?thesis by (simp add: handleCheckoutSessionCompleted_def)
next
  case True
  obtain out w1 where r: "subscriptions_retrieve api (so_subscription s) w = (out, w1)"
    by (cases "subscriptions_retrieve api (so_subscription s) w")
  note k1 = retrieve_webhookEvents [OF r]
  show ?thesis
  proof (cases out)
    case (Thrown msg)
    with True r k1 show ?thesis by (simp add: handleCheckoutSessionCompleted_def)
  next
    case (Returned sub)
    obtain out2 w2 where u: "updateUserSubscription cfg now (the (so_userId s)) sub w1 = (out2, w2)"
      by (cases "updateUserSubscription cfg now (the (so_userId s)) sub w1")
    have k2: "webhookEvents w2 = webhookEvents w"
      using updateUserSubscription_webhookEvents [of cfg now "the (so_userId s)" sub w1] u k1 by simp
    show ?thesis
      using True r Returned u k2
      by (cases out2) (simp_all add: handleCheckoutSessionCompleted_def payment_create_webhookEvents)
  qed
qed

lemma handleSubscriptionUpdate_webhookEvents:
  "webhookEvents (snd (handleSubscriptionUpdate cfg now s w)) = webhookEvents w"
  by (simp add: handleSubscriptionUpdate_def updateUserSubscription_webhookEvents)

lemma handleSubscriptionDeleted_webhookEvents:
  "webhookEvents (snd (handleSubscriptionDeleted now s w)) = webhookEvents w"
  by (simp add: handleSubscriptionDeleted_def user_update_webhookEvents)

lemma handleInvoicePaymentSucceeded_webhookEvents:
  "webhookEvents (snd (handleInvoicePaymentSucceeded api now s w)) = webhookEvents w"
proof (cases "\<not> truthy_str (so_subscription s) \<or> \<not> truthy_str (so_payment_intent s)")
  case True
  then show ?thesis by (auto simp: handleInvoicePaymentSucceeded_def)
next
  case False
  obtain out w1 where r: "subscriptions_retrieve api (so_subscription s) w = (out, w1)"
    by (cases "subscriptions_retrieve api (so_subscription s) w")
  note k1 = retrieve_webhookEvents [OF r]
  show ?thesis
    using False r k1
    by (cases out) (simp_all add: handleInvoicePaymentSucceeded_def payment_create_webhookEvents)
qed

lemma handleInvoicePaymentFailed_webhookEvents:
  "webhookEvents (snd (handleInvoicePaymentFailed api now s w)) = webhookEvents w"
proof (cases "truthy_str (so_subscription s)")
  case False
  then show ?thesis by (simp add: handleInvoicePaymentFailed_def)
next
  case True
  obtain out w1 where r: "subscriptions_retrieve api (so_subscription s) w = (out, w1)"
    by (cases "subscriptions_retrieve api (so_subscription s) w")
  note k1 = retrieve_webhookEvents [OF r]
  show ?thesis
    using True r k1
    by (cases out) (simp_all add: handleInvoicePaymentFailed_def user_update_webhookEvents)
qed

lemma dispatch_webhookEvents:
  "webhookEvents (snd (dispatch cfg api now event w)) = webhookEvents w"
  by (simp add: dispatch_def handleCheckoutSessionCompleted_webhookEvents
      handleSubscriptionUpdate_webhookEvents handleSubscriptionDeleted_webhookEvents
      handleInvoicePaymentSucceeded_webhookEvents handleInvoicePaymentFailed_webhookEvents)

lemma findUnique_None:
  "(webhookEvent_findUnique eid w = None) = (\<forall>x \<in> set (webhookEvents w). eventId x \<noteq> eid)"
  by (auto simp: webhookEvent_findUnique_def find_None_iff)

lemma update_appended:
  assumes "\<forall>x \<in> set rows. eventId x \<noteq> eventId row"
  shows "map (\<lambda>x. if eventId x = eventId row then f x else x) (rows @ [row]) = rows @ [f row]"
proof -
  have "map (\<lambda>x. if eventId x = eventId row then f x else x) rows = rows"
    using assms by (intro map_idI) simp
  then show ?thesis by simp
qed

lemma handleWebhook_fresh:
  assumes ce: "constructEvent payload signature (webhookSecret cfg) = Some event"
    and fresh: "\<forall>x \<in> set (webhookEvents w). eventId x \<noteq> ev_id event"
    and run: "dispatch cfg api now event (w\<lparr>webhookEvents := webhookEvents w @ [webhook_row now event]\<rparr>)
                = (out, w2)"
  shows "handleWebhook cfg constructEvent api now signature payload w =
    (case out of
       Returned u \<Rightarrow>
         (Returned (),
          w2\<lparr>webhookEvents := webhookEvents w @
               [(webhook_row now event)\<lparr>processed := True, processedAt := Some now\<rparr>]\<rparr>)
     | Thrown msg \<Rightarrow>
         (Thrown msg,
          w2\<lparr>webhookEvents := webhookEvents w @
               [(webhook_row now event)\<lparr>processed := True, processedAt := Some now,
                                         we_error := Some msg\<rparr>]\<rparr>))"
proof -
  let ?wc = "w\<lparr>webhookEvents := webhookEvents w @ [webhook_row now event]\<rparr>"
  have none: "webhookEvent_findUnique (ev_id event) w = None"
    using fresh by (simp add: findUnique_None)
  have create: "webhookEvent_create (webhook_row now event) w = (Returned (), ?wc)"
    using fresh by (simp add: webhookEvent_create_def webhook_row_def)
  have rows2: "webhookEvents w2 = webhookEvents w @ [webhook_row now event]"
    using dispatch_webhookEvents [of cfg api now event ?wc] run by simp
  have id: "eventId (webhook_row now event) = ev_id event"
    by (simp add: webhook_row_def)
  have fresh': "\<forall>x \<in> set (webhookEvents w). eventId x \<noteq> eventId (webhook_row now event)"
    using fresh by (simp add: id)
  have upd: "webhookEvent_update (ev_id event) f w2 =
      (Returned (), w2\<lparr>webhookEvents := webhookEvents w @ [f (webhook_row now event)]\<rparr>)" for f
    using update_appended [OF fresh', of f]
    by (simp add: webhookEvent_update_def rows2 id)
  show ?thesis
    using create [unfolded webhook_row_def]
    by (cases out)
       (simp_all add: handleWebhook_def ce none process_event_def
          run [unfolded webhook_row_def] upd)
qed

text \<open>
  Claim C2. When \<^verbatim>\<open>constructEvent\<close> rejects the payload and signature,
  \<^verbatim>\<open>handleWebhook\<close> throws \<^verbatim>\<open>Invalid webhook signature\<close> and the world is
  untouched: no webhook event row, no change to users or payments.
\<close>

theorem handleWebhook_invalid_signature:
  assumes "constructEvent payload signature (webhookSecret cfg) = None"
  shows "handleWebhook cfg constructEvent api now signature payload w
           = (Thrown ''Invalid webhook signature'', w)"
  using assms by (simp add: handleWebhook_def)

theorem handleWebhook_invalid_signature_witness:
  "demo_construct ''charge.refunded'' ''forged'' (webhookSecret demo_config) = None \<and>
   handleWebhook demo_config demo_construct demo_api 1000 ''forged'' ''charge.refunded'' empty_world
     = (Thrown ''Invalid webhook signature'', empty_world)"
proof -
  have h: "demo_construct ''charge.refunded'' ''forged'' (webhookSecret demo_config) = None"
    by (simp add: demo_construct_def demo_config_def)
  from handleWebhook_invalid_signature [where constructEvent = demo_construct, OF h]
  show ?thesis using h by simp
qed

lemma handleWebhook_seen:
  assumes "constructEvent payload signature (webhookSecret cfg) = Some event"
    and "\<exists>x \<in> set (webhookEvents w). eventId x = ev_id event"
  shows "handleWebhook cfg constructEvent api now signature payload w = (Returned (), w)"
proof -
  have "webhookEvent_findUnique (ev_id event) w \<noteq> None"
    using assms(2) by (simp add: findUnique_None)
  then show ?thesis
    using assms(1) by (auto simp: handleWebhook_def)
qed

lemma handleWebhook_stores:
  assumes ce: "constructEvent payload signature (webhookSecret cfg) = Some event"
    and fresh: "\<forall>x \<in> set (webhookEvents w). eventId x \<noteq> ev_id event"
  shows "map eventId (webhookEvents (snd (handleWebhook cfg constructEvent api now signature payload w)))
           = map eventId (webhookEvents w) @ [ev_id event]"
proof -
  obtain out w2 where run:
    "dispatch cfg api now event (w\<lparr>webhookEvents := webhookEvents w @ [webhook_row now event]\<rparr>)
       = (out, w2)"
    by (cases "dispatch cfg api now event (w\<lparr>webhookEvents := webhookEvents w @ [webhook_row now event]\<rparr>)")
  show ?thesis
    by (cases out) (simp_all add: handleWebhook_fresh [where constructEvent = constructEvent, OF ce fresh run] webhook_row_def)
qed

text \<open>
  Claim C1. A verified event whose id already has a row makes \<^verbatim>\<open>handleWebhook\<close>
  return with the world unchanged: no handler runs, no row is created or modified. And
  after a first delivery of an event whose id had no row, whatever its handler did, the
  table holds exactly one row with that id and a second delivery of the same id returns
  and changes nothing.
\<close>

theorem handleWebhook_duplicate:
  assumes first: "constructEvent payload signature (webhookSecret cfg) = Some event"
    and again: "constructEvent payload' signature' (webhookSecret cfg) = Some event'"
    and same: "ev_id event' = ev_id event"
  shows "((\<exists>x \<in> set (webhookEvents w). eventId x = ev_id event) \<longrightarrow>
            handleWebhook cfg constructEvent api now signature payload w = (Returned (), w))
    \<and> ((\<forall>x \<in> set (webhookEvents w). eventId x \<noteq> ev_id event) \<longrightarrow>
         (let w1 = snd (handleWebhook cfg constructEvent api now signature payload w)
          in length (filter (\<lambda>x. eventId x = ev_id event) (webhookEvents w1)) = 1
           \<and> handleWebhook cfg constructEvent api' later signature' payload' w1 = (Returned (), w1)))"
proof (intro conjI impI)
  assume "\<exists>x \<in> set (webhookEvents w). eventId x = ev_id event"
  then show "handleWebhook cfg constructEvent api now signature payload w = (Returned (), w)"
    by (rule handleWebhook_seen [where constructEvent = constructEvent, OF first])
next
  assume fresh: "\<forall>x \<in> set (webhookEvents w). eventId x \<noteq> ev_id event"
  let ?w1 = "snd (handleWebhook cfg constructEvent api now signature payload w)"
  note ids = handleWebhook_stores [where constructEvent = constructEvent and api = api and now = now, OF first fresh]
  have "length (filter (\<lambda>i. i = ev_id event) (map eventId (webhookEvents ?w1))) = 1"
    using fresh by (simp add: ids filter_empty_conv)
  then have one: "length (filter (\<lambda>x. eventId x = ev_id event) (webhookEvents ?w1)) = 1"
    by (simp add: filter_map o_def)
  have "ev_id event \<in> set (map eventId (webhookEvents ?w1))"
    by (simp add: ids)
  then have "\<exists>x \<in> set (webhookEvents ?w1). eventId x = ev_id event'"
    using same by auto
  then have "handleWebhook cfg constructEvent api' later signature' payload' ?w1 = (Returned (), ?w1)"
    by (rule handleWebhook_seen [where constructEvent = constructEvent, OF again])
  with one show "let w1 = ?w1
          in length (filter (\<lambda>x. eventId x = ev_id event) (webhookEvents w1)) = 1
           \<and> handleWebhook cfg constructEvent api' later signature' payload' w1 = (Returned (), w1)"
    by (simp add: Let_def)
qed

theorem handleWebhook_duplicate_witness:
  "(let w1 = snd (handleWebhook demo_config demo_construct demo_api 1000 ''whsec''
                    ''customer.subscription.deleted'' (empty_world\<lparr>users := [demo_user]\<rparr>))
    in length (filter (\<lambda>x. eventId x = ''evt_1'') (webhookEvents w1)) = 1
     \<and> handleWebhook demo_config demo_construct demo_api 2000 ''whsec''
          ''customer.subscription.deleted'' w1 = (Returned (), w1))
   \<and> handleWebhook demo_config demo_construct demo_api 2000 ''whsec'' ''customer.subscription.deleted''
        (empty_world\<lparr>webhookEvents := [webhook_row 1000 (demo_event ''customer.subscription.deleted'')]\<rparr>)
      = (Returned (),
         empty_world\<lparr>webhookEvents := [webhook_row 1000 (demo_event ''customer.subscription.deleted'')]\<rparr>)"
proof -
  let ?ev = "demo_event ''customer.subscription.deleted''"
  have h1: "demo_construct ''customer.subscription.deleted'' ''whsec'' (webhookSecret demo_config)
              = Some ?ev"
    by (simp add: demo_construct_def demo_config_def)
  have h3: "ev_id ?ev = ev_id ?ev" by simp
  have id: "ev_id ?ev = ''evt_1''" by (simp add: demo_event_def)
  note dup = handleWebhook_duplicate [where constructEvent = demo_construct and api = demo_api
      and api' = demo_api and later = 2000, OF h1 h1 h3]
  have a: "\<forall>x \<in> set (webhookEvents (empty_world\<lparr>users := [demo_user]\<rparr>)). eventId x \<noteq> ev_id ?ev"
    by (simp add: empty_world_def)
  have b: "\<exists>x \<in> set (webhookEvents (empty_world\<lparr>webhookEvents := [webhook_row 1000 ?ev]\<rparr>)).
             eventId x = ev_id ?ev"
    by (simp add: webhook_row_def)
  from dup [where w = "empty_world\<lparr>users := [demo_user]\<rparr>" and now = 1000] a
  have first: "let w1 = snd (handleWebhook demo_config demo_construct demo_api 1000 ''whsec''
                    ''customer.subscription.deleted'' (empty_world\<lparr>users := [demo_user]\<rparr>))
    in length (filter (\<lambda>x. eventId x = ''evt_1'') (webhookEvents w1)) = 1
     \<and> handleWebhook demo_config demo_construct demo_api 2000 ''whsec''
          ''customer.subscription.deleted'' w1 = (Returned (), w1)"
    by (simp add: id)
  from dup [where w = "empty_world\<lparr>webhookEvents := [webhook_row 1000 ?ev]\<rparr>" and now = 2000] b
  have second: "handleWebhook demo_config demo_construct demo_api 2000 ''whsec'' ''customer.subscription.deleted''
        (empty_world\<lparr>webhookEvents := [webhook_row 1000 ?ev]\<rparr>)
      = (Returned (), empty_world\<lparr>webhookEvents := [webhook_row 1000 ?ev]\<rparr>)"
    by blast
  from first second show ?thesis by simp
qed

text \<open>
  Claim C6. When the handler of a new event throws \<open>msg\<close>, leaving the world \<open>w2\<close>,
  \<^verbatim>\<open>handleWebhook\<close> sets the stored row to processed, with the time and with
  \<open>msg\<close> as its error, and throws \<open>msg\<close> again.
\<close>

theorem handleWebhook_handler_failure:
  assumes ce: "constructEvent payload signature (webhookSecret cfg) = Some event"
    and fresh: "\<forall>x \<in> set (webhookEvents w). eventId x \<noteq> ev_id event"
    and throws: "dispatch cfg api now event
                  (w\<lparr>webhookEvents := webhookEvents w @
                       [\<lparr>we_source = ''stripe'', eventId = ev_id event, eventType = ev_type event,
                         we_payload = event, processed = False, processedAt = None,
                         we_error = None, we_createdAt = now\<rparr>]\<rparr>) = (Thrown msg, w2)"
  shows "handleWebhook cfg constructEvent api now signature payload w =
      (Thrown msg,
       w2\<lparr>webhookEvents := webhookEvents w @
            [\<lparr>we_source = ''stripe'', eventId = ev_id event, eventType = ev_type event,
              we_payload = event, processed = True, processedAt = Some now,
              we_error = Some msg, we_createdAt = now\<rparr>]\<rparr>)"
  using handleWebhook_fresh [where constructEvent = constructEvent, OF ce fresh throws [folded webhook_row_def]]
  by (simp add: webhook_row_def)

theorem handleWebhook_handler_failure_witness:
  "handleWebhook demo_config demo_construct demo_api 1000 ''whsec'' ''customer.subscription.deleted''
      empty_world =
      (Thrown ''Record to update not found.'',
       empty_world\<lparr>webhookEvents :=
            [\<lparr>we_source = ''stripe'', eventId = ''evt_1'', eventType = ''customer.subscription.deleted'',
              we_payload = demo_event ''customer.subscription.deleted'', processed = True,
              processedAt = Some 1000, we_error = Some ''Record to update not found.'',
              we_createdAt = 1000\<rparr>]\<rparr>)"
proof -
  let ?ev = "demo_event ''customer.subscription.deleted''"
  let ?wc = "empty_world\<lparr>webhookEvents := webhookEvents empty_world @
                       [\<lparr>we_source = ''stripe'', eventId = ev_id ?ev, eventType = ev_type ?ev,
                         we_payload = ?ev, processed = False, processedAt = None,
                         we_error = None, we_createdAt = 1000\<rparr>]\<rparr>"
  have h1: "demo_construct ''customer.subscription.deleted'' ''whsec'' (webhookSecret demo_config)
              = Some ?ev"
    by (simp add: demo_construct_def demo_config_def)
  have h2: "\<forall>x \<in> set (webhookEvents empty_world). eventId x \<noteq> ev_id ?ev"
    by (simp add: empty_world_def)
  have h3: "dispatch demo_config demo_api 1000 ?ev ?wc = (Thrown ''Record to update not found.'', ?wc)"
    by (simp add: dispatch_def demo_event_def handleSubscriptionDeleted_def demo_object_def
        truthy_str_def user_update_def empty_world_def P2025_def)
  from handleWebhook_handler_failure [where constructEvent = demo_construct, OF h1 h2 h3]
  show ?thesis by (simp add: demo_event_def empty_world_def)
qed

text \<open>
  Claim C8. A verified new event whose type is none of the six strings of the switch (the
  five handlers) is stored and marked processed with no error; nothing else in the world
  changes and \<^verbatim>\<open>handleWebhook\<close> returns normally.
\<close>

theorem handleWebhook_unrecognized_type:
  assumes ce: "constructEvent payload signature (webhookSecret cfg) = Some event"
    and fresh: "\<forall>x \<in> set (webhookEvents w). eventId x \<noteq> ev_id event"
    and other: "ev_type event \<notin> {''checkout.session.completed'', ''customer.subscription.created'',
        ''customer.subscription.updated'', ''customer.subscription.deleted'',
        ''invoice.payment_succeeded'', ''invoice.payment_failed''}"
  shows "handleWebhook cfg constructEvent api now signature payload w =
      (Returned (),
       w\<lparr>webhookEvents := webhookEvents w @
            [\<lparr>we_source = ''stripe'', eventId = ev_id event, eventType = ev_type event,
              we_payload = event, processed = True, processedAt = Some now,
              we_error = None, we_createdAt = now\<rparr>]\<rparr>)"
proof -
  have run: "dispatch cfg api now event (w\<lparr>webhookEvents := webhookEvents w @ [webhook_row now event]\<rparr>)
                = (Returned (), w\<lparr>webhookEvents := webhookEvents w @ [webhook_row now event]\<rparr>)"
    using other by (simp add: dispatch_def)
  show ?thesis
    using handleWebhook_fresh [where constructEvent = constructEvent, OF ce fresh run] by (simp add: webhook_row_def)
qed

theorem handleWebhook_unrecognized_type_witness:
  "handleWebhook demo_config demo_construct demo_api 1000 ''whsec'' ''charge.refunded'' empty_world =
      (Returned (),
       empty_world\<lparr>webhookEvents :=
            [\<lparr>we_source = ''stripe'', eventId = ''evt_1'', eventType = ''charge.refunded'',
              we_payload = demo_event ''charge.refunded'', processed = True, processedAt = Some 1000,
              we_error = None, we_createdAt = 1000\<rparr>]\<rparr>)"
proof -
  have h1: "demo_construct ''charge.refunded'' ''whsec'' (webhookSecret demo_config)
              = Some (demo_event ''charge.refunded'')"
    by (simp add: demo_construct_def demo_config_def)
  have h2: "\<forall>x \<in> set (webhookEvents empty_world). eventId x \<noteq> ev_id (demo_event ''charge.refunded'')"
    by (simp add: empty_world_def)
  have h3: "ev_type (demo_event ''charge.refunded'') \<notin>
       {''checkout.session.completed'', ''customer.subscription.created'',
        ''customer.subscription.updated'', ''customer.subscription.deleted'',
        ''invoice.payment_succeeded'', ''invoice.payment_failed''}"
    by (simp add: demo_event_def)
  from handleWebhook_unrecognized_type [where constructEvent = demo_construct and api = demo_api
      and now = 1000, OF h1 h2 h3]
  show ?thesis by (simp add: demo_event_def empty_world_def)
qed

end
